theory Spec2Isabelle
  imports Main
begin

section \<open>Strings, header maps and response writers\<close>

text \<open>
  Go strings are byte strings; they are modelled as \<open>string\<close>. The functions of this
  section are the parts of Go's standard library that the gateway calls (\<open>strings\<close>,
  \<open>net/textproto\<close>, \<open>net/http\<close>, \<open>fmt\<close>, \<open>time\<close>), written out for the byte
  strings HTTP uses.
\<close>

definition lower_letters :: string where
  "lower_letters = ''abcdefghijklmnopqrstuvwxyz''"

definition upper_letters :: string where
  "upper_letters = ''ABCDEFGHIJKLMNOPQRSTUVWXYZ''"

definition to_upper :: "char \<Rightarrow> char" where
  "to_upper c = (case map_of (zip lower_letters upper_letters) c of Some u \<Rightarrow> u | None \<Rightarrow> c)"

definition to_lower :: "char \<Rightarrow> char" where
  "to_lower c = (case map_of (zip upper_letters lower_letters) c of Some l \<Rightarrow> l | None \<Rightarrow> c)"

text \<open>
  \<open>strings.ToTitle\<close> maps every rune of a string to its Unicode title case. On ASCII
  text (every byte below \<open>0x80\<close>) that is: every letter \<open>a..z\<close> becomes \<open>A..Z\<close>, every
  other byte stays. \<open>ToTitle\<close> below is \<open>strings.ToTitle\<close> on ASCII text only, so
  every statement that speaks of \<open>ToTitle s\<close> assumes \<open>is_ascii s\<close>.
\<close>

definition is_ascii :: "string \<Rightarrow> bool" where
  "is_ascii s = list_all (\<lambda>c. \<not> digit7 c) s"

definition ToTitle :: "string \<Rightarrow> string" where
  "ToTitle s = map to_upper s"

text \<open>
  Case-insensitive equality of two ASCII strings (\<open>strings.EqualFold\<close> on ASCII text):
  equal once both are folded to upper case.
\<close>

definition EqualFold :: "string \<Rightarrow> string \<Rightarrow> bool" where
  "EqualFold s t = (ToTitle s = ToTitle t)"

text \<open>\<open>textproto.CanonicalMIMEHeaderKey\<close>: a key with a byte that is no token byte
  is returned as it is; otherwise the first letter and every letter after a hyphen
  are made upper case and all other letters lower case.\<close>

definition validHeaderFieldByte :: "char \<Rightarrow> bool" where
  "validHeaderFieldByte c =
     (c \<in> set (lower_letters @ upper_letters @ ''0123456789'' @ ''!#$%&*+-.^_|~''
                 @ [CHR 0x27, CHR 0x60]))"

fun canonical_bytes :: "bool \<Rightarrow> string \<Rightarrow> string" where
  "canonical_bytes upper [] = []"
| "canonical_bytes upper (c # cs) =
     (let c' = (if upper \<and> c \<in> set lower_letters then to_upper c
                else if \<not> upper \<and> c \<in> set upper_letters then to_lower c
                else c)
      in c' # canonical_bytes (c' = CHR ''-'') cs)"

definition CanonicalMIMEHeaderKey :: "string \<Rightarrow> string" where
  "CanonicalMIMEHeaderKey s =
     (if list_all validHeaderFieldByte s then canonical_bytes True s else s)"

text \<open>\<open>http.Header\<close> is \<open>map[string][]string\<close>; its methods canonicalise the key.\<close>

type_synonym header = "string \<rightharpoonup> string list"

definition Header_Set :: "header \<Rightarrow> string \<Rightarrow> string \<Rightarrow> header" where
  "Header_Set h k v = h(CanonicalMIMEHeaderKey k \<mapsto> [v])"

definition Header_Add :: "header \<Rightarrow> string \<Rightarrow> string \<Rightarrow> header" where
  "Header_Add h k v =
     h(CanonicalMIMEHeaderKey k \<mapsto>
         (case h (CanonicalMIMEHeaderKey k) of None \<Rightarrow> [] | Some vs \<Rightarrow> vs) @ [v])"

definition Header_Del :: "header \<Rightarrow> string \<Rightarrow> header" where
  "Header_Del h k = h(CanonicalMIMEHeaderKey k := None)"

text \<open>
  A Go panic, as a value: the ones that the code at hand can raise.
\<close>

datatype panic = InvalidWriteHeaderCode | IndexOutOfRange | NilPointerDereference

text \<open>
  An \<open>http.ResponseWriter\<close> that records what is written to it (as
  \<open>httptest.ResponseRecorder\<close> does): the header map, the status once
  \<open>WriteHeader\<close> has been called (\<open>None\<close> before; the first call wins), and the body.
  \<open>WriteHeader\<close> of \<open>net/http\<close> (the server's writer and the recorder alike) returns
  at once when the status was written before, and otherwise panics for a code outside
  \<open>100..999\<close>. A panic abandons the response: nothing of it is sent.
\<close>

record response_writer =
  w_header :: header
  w_status :: "int option"
  w_body :: string

definition w_Set :: "response_writer \<Rightarrow> string \<Rightarrow> string \<Rightarrow> response_writer" where
  "w_Set w k v = w\<lparr>w_header := Header_Set (w_header w) k v\<rparr>"

definition w_Add :: "response_writer \<Rightarrow> string \<Rightarrow> string \<Rightarrow> response_writer" where
  "w_Add w k v = w\<lparr>w_header := Header_Add (w_header w) k v\<rparr>"

definition WriteHeader :: "response_writer \<Rightarrow> int \<Rightarrow> panic + response_writer" where
  "WriteHeader w code =
     (case w_status w of
        Some _ \<Rightarrow> Inr w
      | None \<Rightarrow> (if code < 100 \<or> code > 999 then Inl InvalidWriteHeaderCode
                 else Inr (w\<lparr>w_status := Some code\<rparr>)))"

definition StatusOK :: int where "StatusOK = 200"
definition StatusMethodNotAllowed :: int where "StatusMethodNotAllowed = 405"
definition StatusInternalServerError :: int where "StatusInternalServerError = 500"

text \<open>\<open>Write\<close> sends the status 200 first when none was written.\<close>

definition Write :: "response_writer \<Rightarrow> string \<Rightarrow> response_writer" where
  "Write w bs =
     (let w' = (case w_status w of None \<Rightarrow> w\<lparr>w_status := Some StatusOK\<rparr> | Some _ \<Rightarrow> w)
      in w'\<lparr>w_body := w_body w' @ bs\<rparr>)"

text \<open>
  \<open>http.Error(w, error, code)\<close>: sets the two headers, writes the status and then
  prints the message with \<open>fmt.Fprintln\<close>, that is, followed by a newline.
\<close>

definition http_Error :: "response_writer \<Rightarrow> string \<Rightarrow> int \<Rightarrow> panic + response_writer" where
  "http_Error w msg code =
     (let w1 = w_Set w ''Content-Type'' ''text/plain; charset=utf-8'';
          w2 = w_Set w1 ''X-Content-Type-Options'' ''nosniff''
      in case WriteHeader w2 code of
           Inl p \<Rightarrow> Inl p
         | Inr w3 \<Rightarrow> Inr (Write w3 (msg @ [CHR 0x0A])))"

text \<open>\<open>fmt.Sprintf("%d", n)\<close>: the decimal digits of an integer.\<close>

fun digits :: "nat \<Rightarrow> string" where
  "digits n = (if n < 10 then [''0123456789'' ! n]
               else digits (n div 10) @ [''0123456789'' ! (n mod 10)])"

declare digits.simps [simp del]

definition fmt_d :: "int \<Rightarrow> string" where
  "fmt_d i = (if i < 0 then CHR ''-'' # digits (nat (- i)) else digits (nat i))"

text \<open>
  A \<open>time.Duration\<close> is a count of nanoseconds. \<open>d.Seconds()\<close> is the floating-point
  sum of the whole seconds and the remainder over \<open>1e9\<close>, two numbers of the same sign:
  it is zero only for \<open>d = 0\<close>, and \<open>int(d.Seconds())\<close> truncates it towards zero.
  The rounding of the floating-point sum is not modelled: \<open>Seconds_int\<close> is the exact
  truncated quotient, which is what the sum gives for durations of less than \<open>2^24\<close>
  seconds (beyond that a remainder close to a full second can round the sum up: for
  \<open>16777216999999999\<close> nanoseconds the code gets \<open>16777217\<close>). So every statement
  that speaks of the seconds of a duration assumes \<open>exact_seconds\<close> of it.
\<close>

definition Second :: int where "Second = 1000000000"

definition exact_seconds :: "int \<Rightarrow> bool" where
  "exact_seconds d = (\<bar>d\<bar> < 2 ^ 24 * Second)"

definition Seconds_is_zero :: "int \<Rightarrow> bool" where
  "Seconds_is_zero d = (d = 0)"

definition Seconds_int :: "int \<Rightarrow> int" where
  "Seconds_int d = (if d < 0 then - ((- d) div Second) else d div Second)"

section \<open>Data model\<close>

text \<open>
  A Go \<open>error\<close> is a message; an error that also implements the handler's
  \<open>responseError\<close> interface carries a status code (\<open>StatusCode()\<close>).
\<close>

datatype go_error = Error string | ResponseError string int

fun Error_msg :: "go_error \<Rightarrow> string" where
  "Error_msg (Error m) = m"
| "Error_msg (ResponseError m c) = m"

text \<open>The type assertion \<open>err.(responseError)\<close>: the status code when the error has one.\<close>

fun as_responseError :: "go_error \<Rightarrow> int option" where
  "as_responseError (Error m) = None"
| "as_responseError (ResponseError m c) = Some c"

text \<open>
  \<open>proxy.Metadata\<close> and \<open>proxy.Response\<close>. The Go maps \<open>Headers\<close> and \<open>Data\<close> are lists of
  entries with distinct keys, in the order in which a \<open>range\<close> loop visits them (Go fixes
  no order, so a list stands for any of them); \<open>len(Data) > 0\<close> is \<open>Data \<noteq> []\<close>. The values
  of \<open>Data\<close> are of any type \<open>'v\<close>. \<open>Io\<close> is the reader's whole content, \<open>None\<close> for a
  nil reader.
\<close>

record metadata =
  Headers :: "(string \<times> string list) list"
  StatusCode :: int

record 'v response =
  Data :: "(string \<times> 'v) list"
  IsComplete :: bool
  Metadata :: metadata
  Io :: "string option"

text \<open>\<open>config.Backend\<close> and \<open>config.EndpointConfig\<close>, with the fields the routers read.\<close>

record backend =
  URLPattern :: string
  Encoding :: string
  ConcurrentCalls :: int

record endpoint_config =
  Endpoint :: string
  cfg_Method :: string
  Backend :: "backend list"
  Timeout :: int
  CacheTTL :: int
  QueryString :: "string list"
  HeadersToPass :: "string list"
  OutputEncoding :: string

text \<open>
  The inbound \<open>http.Request\<close>. \<open>Header\<close> is a reference to a header map in the store
  (see the request builder); \<open>URL_Query\<close> is the map \<open>r.URL.Query()\<close> returns, the
  parsed query string.
\<close>

type_synonym addr = nat

record http_request =
  Method :: string
  Header :: addr
  RemoteAddr :: string
  URL_Query :: "string \<rightharpoonup> string list"
  Body :: string

text \<open>
  The declarations of the packages \<open>router\<close> and \<open>core\<close> that the handler reads. Their
  values are fixed outside the files at hand, so the handler takes them as a parameter.
\<close>

record router_pkg =
  KrakendHeaderName :: string
  KrakendHeaderValue :: string
  CompleteResponseHeaderName :: string
  HeaderCompleteResponseValue :: string
  HeaderIncompleteResponseValue :: string
  HeadersToSend :: "string list"
  UserAgentHeaderValue :: "string list"
  ErrInternalError :: go_error

text \<open>Modelled from the spec: \<open>router.DefaultToHTTPError\<close>, the default mapping of an
  error to a status, is declared outside the files at hand; the spec gives it as
  "default 500".\<close>

definition DefaultToHTTPError :: "go_error \<Rightarrow> int" where
  "DefaultToHTTPError e = StatusInternalServerError"

section \<open>The endpoint handler (router/mux/endpoint.go)\<close>

text \<open>
  The handler reads the method of the inbound request and hands the request to the
  request builder \<open>rb\<close>, whose result (of any type \<open>'q\<close>) goes to the proxy. A proxy
  run is a function from that request to the pair it returns, together with a flag
  telling whether the deadline-bound context is done when it returns (what \<open>select\<close>
  on \<open>requestCtx.Done()\<close> then finds). A render writes a response, or nil, to the
  writer, or panics; \<open>getRender\<close> of package \<open>mux\<close> is outside the files at hand and
  is the parameter \<open>muxRender\<close>. The handler's result is the writer, or the panic that
  ended the handler, and the list of the requests the proxy was called with.
\<close>

type_synonym ('q, 'v) proxy = "'q \<Rightarrow> 'v response option \<times> go_error option \<times> bool"

type_synonym 'v render = "response_writer \<Rightarrow> 'v response option \<Rightarrow> panic + response_writer"

type_synonym 'q RequestBuilder = "http_request \<Rightarrow> string list \<Rightarrow> string list \<Rightarrow> 'q"

text \<open>The loop that copies \<open>response.Metadata.Headers\<close>: every value of every key is added.\<close>

definition add_headers :: "response_writer \<Rightarrow> (string \<times> string list) list \<Rightarrow> response_writer" where
  "add_headers w hs = foldl (\<lambda>w (k, vs). foldl (\<lambda>w v. w_Add w k v) w vs) w hs"

definition CustomEndpointHandlerWithHTTPError ::
  "router_pkg \<Rightarrow> (endpoint_config \<Rightarrow> 'v render) \<Rightarrow> 'q RequestBuilder
     \<Rightarrow> (go_error \<Rightarrow> int) \<Rightarrow> endpoint_config \<Rightarrow> ('q, 'v) proxy
     \<Rightarrow> response_writer \<Rightarrow> http_request \<Rightarrow> (panic + response_writer) \<times> 'q list" where
  "CustomEndpointHandlerWithHTTPError P muxRender rb errF configuration prxy =
     (let cacheControlHeaderValue = ''public, max-age='' @ fmt_d (Seconds_int (CacheTTL configuration));
          isCacheEnabled = (\<not> Seconds_is_zero (CacheTTL configuration));
          render = muxRender configuration;
          headersToSend = (if length (HeadersToPass configuration) = 0 then HeadersToSend P
                           else HeadersToPass configuration);
          method = ToTitle (cfg_Method configuration)
      in (\<lambda>w r.
         let w = w_Set w (KrakendHeaderName P) (KrakendHeaderValue P) in
         if Method r \<noteq> method then
           (http_Error (w_Set w (CompleteResponseHeaderName P) (HeaderIncompleteResponseValue P))
              [] StatusMethodNotAllowed, [])
         else
           (let q = rb r (QueryString configuration) headersToSend;
                (response, err0, ctx_done) = prxy q;
                err = (if ctx_done \<and> err0 = None then Some (ErrInternalError P) else err0)
            in if response \<noteq> None \<and> Data (the response) \<noteq> [] then
                 (let w = (if IsComplete (the response) then
                             (let w = w_Set w (CompleteResponseHeaderName P) (HeaderCompleteResponseValue P)
                              in if isCacheEnabled then w_Set w ''Cache-Control'' cacheControlHeaderValue
                                 else w)
                           else w_Set w (CompleteResponseHeaderName P) (HeaderIncompleteResponseValue P));
                      w = add_headers w (Headers (Metadata (the response)))
                  in (render w response, [q]))
               else
                 (let w = w_Set w (CompleteResponseHeaderName P) (HeaderIncompleteResponseValue P)
                  in case err of
                       Some e \<Rightarrow>
                         (case as_responseError e of
                            Some code \<Rightarrow> (http_Error w (Error_msg e) code, [q])
                          | None \<Rightarrow> (http_Error w (Error_msg e) (errF e), [q]))
                     | None \<Rightarrow> (render w response, [q])))))"

text \<open>\<open>CustomEndpointHandler\<close>: the handler with the default error mapping.\<close>

definition CustomEndpointHandler ::
  "router_pkg \<Rightarrow> (endpoint_config \<Rightarrow> 'v render) \<Rightarrow> 'q RequestBuilder
     \<Rightarrow> endpoint_config \<Rightarrow> ('q, 'v) proxy
     \<Rightarrow> response_writer \<Rightarrow> http_request \<Rightarrow> (panic + response_writer) \<times> 'q list" where
  "CustomEndpointHandler P muxRender rb = CustomEndpointHandlerWithHTTPError P muxRender rb DefaultToHTTPError"

text \<open>
  For the statements below: the request the handler builds and calls the proxy with,
  \<open>rb(r, configuration.QueryString, headersToSend)\<close>.
\<close>

definition built :: "router_pkg \<Rightarrow> 'q RequestBuilder \<Rightarrow> endpoint_config \<Rightarrow> http_request \<Rightarrow> 'q" where
  "built P rb configuration r =
     rb r (QueryString configuration)
       (if length (HeadersToPass configuration) = 0 then HeadersToSend P
        else HeadersToPass configuration)"

section \<open>The request builder (router/mux/endpoint.go)\<close>

text \<open>
  The builder may hand out the inbound request's own header map, so header maps live
  in a store and are named by their address. \<open>make_map\<close> allocates an empty map at
  the next free address; \<open>map_assign\<close> is the Go statement \<open>m[k] = v\<close>, which uses the
  key as it is written.
\<close>

record store =
  maps :: "addr \<Rightarrow> header"
  next_addr :: addr

definition make_map :: "store \<Rightarrow> store \<times> addr" where
  "make_map st = (st\<lparr>maps := (maps st)(next_addr st := Map.empty), next_addr := Suc (next_addr st)\<rparr>,
                  next_addr st)"

definition map_assign :: "store \<Rightarrow> addr \<Rightarrow> string \<Rightarrow> string list \<Rightarrow> store" where
  "map_assign st a k v = st\<lparr>maps := (maps st)(a := (maps st a)(k \<mapsto> v))\<rparr>"

record proxy_request =
  req_Method :: string
  req_Query :: "string \<rightharpoonup> string list"
  req_Body :: string
  req_Params :: "string \<rightharpoonup> string"
  req_Headers :: addr

definition requestParamsAsterisk :: string where
  "requestParamsAsterisk = ''*''"

text \<open>
  The loop over \<open>headersToSend\<close>: \<open>headers\<close> is the address of the map being filled,
  \<open>rh\<close> the address of \<open>r.Header\<close>. The result is the store and the address
  \<open>headers\<close> holds after the loop.
\<close>

fun headers_loop :: "store \<Rightarrow> addr \<Rightarrow> addr \<Rightarrow> string list \<Rightarrow> store \<times> addr" where
  "headers_loop st headers rh [] = (st, headers)"
| "headers_loop st headers rh (k # ks) =
     (if k = requestParamsAsterisk then (st, rh)
      else (case maps st rh (CanonicalMIMEHeaderKey k) of
              Some h \<Rightarrow> headers_loop (map_assign st headers k h) headers rh ks
            | None \<Rightarrow> headers_loop st headers rh ks))"

text \<open>The loop over \<open>queryString\<close>; \<open>queryValues\<close> is the map \<open>r.URL.Query()\<close> returned.\<close>

fun query_loop ::
  "(string \<rightharpoonup> string list) \<Rightarrow> (string \<rightharpoonup> string list) \<Rightarrow> string list \<Rightarrow> (string \<rightharpoonup> string list)" where
  "query_loop query queryValues [] = query"
| "query_loop query queryValues (k # ks) =
     (if k = requestParamsAsterisk then queryValues
      else (case queryValues k of
              Some v \<Rightarrow> (if length v > 0 then query_loop (query(k \<mapsto> v)) queryValues ks
                         else query_loop query queryValues ks)
            | None \<Rightarrow> query_loop query queryValues ks))"

text \<open>
  \<open>NewRequestBuilder\<close>. \<open>FindAllStringSubmatch\<close> stands for the compiled regular
  expression \<open>re\<close> applied with \<open>re.FindAllStringSubmatch(_, -1)\<close>; \<open>paramExtractor\<close>
  is the router's extractor of path parameters.
\<close>

definition NewRequestBuilder ::
  "router_pkg \<Rightarrow> (string \<Rightarrow> string list list) \<Rightarrow> (http_request \<Rightarrow> (string \<rightharpoonup> string))
     \<Rightarrow> http_request \<Rightarrow> string list \<Rightarrow> string list \<Rightarrow> store \<Rightarrow> proxy_request \<times> store" where
  "NewRequestBuilder P FindAllStringSubmatch paramExtractor r queryString headersToSend st0 =
     (let params = paramExtractor r;
          (st1, fresh) = make_map st0;
          (st2, headers) = headers_loop st1 fresh (Header r) headersToSend;
          matches = FindAllStringSubmatch (RemoteAddr r);
          st3 = (if length matches > 0 \<and> length (matches ! 0) > 1
                 then map_assign st2 headers ''X-Forwarded-For'' [matches ! 0 ! 1]
                 else map_assign st2 headers ''X-Forwarded-For'' [RemoteAddr r]);
          st4 = map_assign st3 headers ''User-Agent'' (UserAgentHeaderValue P);
          query = query_loop Map.empty (URL_Query r) queryString
      in (\<lparr>req_Method = Method r, req_Query = query, req_Body = Body r, req_Params = params,
           req_Headers = headers\<rparr>, st4))"

section \<open>Render resolution and the noop render (router/gin/render.go)\<close>

text \<open>
  The register maps an encoding name to a render; \<open>RegisterRender\<close> adds or replaces
  an entry. The register is a variable of the package, so the functions that read it
  take its content at that moment as the argument \<open>register\<close>; \<open>json\<close> is
  \<open>jsonRender\<close>, the fallback the code starts from. Renders are of any type \<open>'r\<close>.
\<close>

definition NEGOTIATE :: string where
  "NEGOTIATE = ''negotiate''"

text \<open>Modelled from the spec: the names \<open>encoding.STRING\<close>, \<open>encoding.JSON\<close> and
  \<open>encoding.NOOP\<close> are declared in package \<open>encoding\<close>, outside the files at hand; the
  spec lists the built-in renders as "negotiate", "string", "json" and "noop".\<close>

definition encoding_STRING :: string where
  "encoding_STRING = ''string''"

definition encoding_JSON :: string where
  "encoding_JSON = ''json''"

definition encoding_NOOP :: string where
  "encoding_NOOP = ''noop''"

text \<open>The register as the package declares it, each render standing for itself by name.\<close>

datatype builtin_render = NegotiatedRender | StringRender | JsonRender | NoopRender

definition renderRegister :: "string \<rightharpoonup> builtin_render" where
  "renderRegister = [NEGOTIATE \<mapsto> NegotiatedRender, encoding_STRING \<mapsto> StringRender,
                     encoding_JSON \<mapsto> JsonRender, encoding_NOOP \<mapsto> NoopRender]"

definition RegisterRender :: "(string \<rightharpoonup> 'r) \<Rightarrow> string \<Rightarrow> 'r \<Rightarrow> (string \<rightharpoonup> 'r)" where
  "RegisterRender register name r = register(name \<mapsto> r)"

definition getWithFallback :: "(string \<rightharpoonup> 'r) \<Rightarrow> string \<Rightarrow> 'r \<Rightarrow> 'r" where
  "getWithFallback register key fallback =
     (case register key of None \<Rightarrow> fallback | Some r \<Rightarrow> r)"

definition getRender :: "(string \<rightharpoonup> 'r) \<Rightarrow> 'r \<Rightarrow> endpoint_config \<Rightarrow> 'r" where
  "getRender register json cfg =
     (let fallback = json;
          fallback = (if length (Backend cfg) = 1
                      then getWithFallback register (Encoding (Backend cfg ! 0)) fallback
                      else fallback)
      in if OutputEncoding cfg = [] then fallback
         else getWithFallback register (OutputEncoding cfg) fallback)"

text \<open>
  What \<open>noopRender\<close> uses of gin's \<open>Context\<close>: the status, header map and body of its
  writer. \<open>c.Status(code)\<close> records a positive code (gin ignores any other);
  \<open>c.Header(k, v)\<close> sets the header to the one value \<open>v\<close>, and deletes it when \<open>v\<close>
  is empty; \<open>io.Copy\<close> appends the reader's content to the body. Indexing an empty
  slice and reading a nil reader panic.
\<close>

record gin_context =
  c_status :: int
  c_header :: header
  c_body :: string

definition c_Status :: "gin_context \<Rightarrow> int \<Rightarrow> gin_context" where
  "c_Status c code = (if code > 0 then c\<lparr>c_status := code\<rparr> else c)"

definition c_Header :: "gin_context \<Rightarrow> string \<Rightarrow> string \<Rightarrow> gin_context" where
  "c_Header c k v = (if v = [] then c\<lparr>c_header := Header_Del (c_header c) k\<rparr>
                     else c\<lparr>c_header := Header_Set (c_header c) k v\<rparr>)"

definition io_Copy :: "gin_context \<Rightarrow> string option \<Rightarrow> panic + gin_context" where
  "io_Copy c src = (case src of None \<Rightarrow> Inl NilPointerDereference
                    | Some bs \<Rightarrow> Inr (c\<lparr>c_body := c_body c @ bs\<rparr>))"

text \<open>The loop of \<open>noopRender\<close> over \<open>response.Metadata.Headers\<close>: \<open>c.Header(k, v[0])\<close>.\<close>

fun noop_headers :: "gin_context \<Rightarrow> (string \<times> string list) list \<Rightarrow> panic + gin_context" where
  "noop_headers c [] = Inr c"
| "noop_headers c ((k, v) # hs) =
     (case v of [] \<Rightarrow> Inl IndexOutOfRange
      | v0 # _ \<Rightarrow> noop_headers (c_Header c k v0) hs)"

definition noopRender :: "gin_context \<Rightarrow> 'v response option \<Rightarrow> panic + gin_context" where
  "noopRender c response =
     (case response of
        None \<Rightarrow> Inr (c_Status c StatusInternalServerError)
      | Some resp \<Rightarrow>
          (case noop_headers (c_Status c (StatusCode (Metadata resp))) (Headers (Metadata resp)) of
             Inl p \<Rightarrow> Inl p
           | Inr c' \<Rightarrow> io_Copy c' (Io resp)))"

section \<open>Building a handler and serving requests\<close>

text \<open>
  Modelled from the spec: \<open>getRender\<close> of package \<open>mux\<close>, which the handler factory of
  \<open>endpoint.go\<close> calls, is outside the files at hand; the spec gives one rule of render
  resolution, the rule that \<open>getRender\<close> of package \<open>gin\<close> implements, so the factory is
  given that \<open>getRender\<close> on a register of renders for its writer.

  The register is a variable of the package, and \<open>RegisterRender\<close> may change it while
  requests are served. The factory resolves the render when it is called
  (\<open>render := getRender(configuration)\<close> stands before the function for the requests
  is returned), so it reads the register as it is then, \<open>register\<close>. The function it
  returns is given, with each request, the register as it is when the request
  arrives, \<open>register_now\<close>; the code of that function does not read it.
\<close>

definition handler_built ::
  "router_pkg \<Rightarrow> 'v render \<Rightarrow> 'q RequestBuilder \<Rightarrow> (go_error \<Rightarrow> int) \<Rightarrow> (string \<rightharpoonup> 'v render)
     \<Rightarrow> endpoint_config \<Rightarrow> ('q, 'v) proxy
     \<Rightarrow> (string \<rightharpoonup> 'v render) \<Rightarrow> response_writer \<Rightarrow> http_request
     \<Rightarrow> (panic + response_writer) \<times> 'q list" where
  "handler_built P json rb errF register configuration prxy =
     (let handler = CustomEndpointHandlerWithHTTPError P (getRender register json) rb errF configuration prxy
      in (\<lambda>register_now. handler))"

section \<open>Registration of endpoints (router/mux/router.go)\<close>

text \<open>
  The router's effects are the calls of \<open>Engine.Handle\<close> (pattern, method, handler)
  and the lines given to the logger; both are kept in the order they happen. Handlers
  are of any type \<open>'h\<close>.
\<close>

datatype log_entry = LogError "string list" | LogDebug "string list"

record 'h router_state =
  handled :: "(string \<times> string \<times> 'h) list"
  logged :: "log_entry list"

definition MethodGet :: string where "MethodGet = ''GET''"
definition MethodPost :: string where "MethodPost = ''POST''"
definition MethodPut :: string where "MethodPut = ''PUT''"
definition MethodPatch :: string where "MethodPatch = ''PATCH''"
definition MethodDelete :: string where "MethodDelete = ''DELETE''"

definition Logger_Error :: "'h router_state \<Rightarrow> string list \<Rightarrow> 'h router_state" where
  "Logger_Error s msg = s\<lparr>logged := logged s @ [LogError msg]\<rparr>"

definition Logger_Debug :: "'h router_state \<Rightarrow> string list \<Rightarrow> 'h router_state" where
  "Logger_Debug s msg = s\<lparr>logged := logged s @ [LogDebug msg]\<rparr>"

definition Engine_Handle :: "'h router_state \<Rightarrow> string \<Rightarrow> string \<Rightarrow> 'h \<Rightarrow> 'h router_state" where
  "Engine_Handle s pattern method handler = s\<lparr>handled := handled s @ [(pattern, method, handler)]\<rparr>"

definition registerKrakendEndpoint ::
  "string \<Rightarrow> string \<Rightarrow> 'h \<Rightarrow> int \<Rightarrow> 'h router_state \<Rightarrow> 'h router_state" where
  "registerKrakendEndpoint method0 path handler totBackends s =
     (let method = ToTitle method0 in
      if method \<noteq> MethodGet \<and> totBackends > 1 then
        Logger_Error s [method, ''endpoints must have a single backend! Ignoring'', path]
      else if method = MethodGet \<or> method = MethodPost \<or> method = MethodPut
              \<or> method = MethodPatch \<or> method = MethodDelete then
        Engine_Handle (Logger_Debug s [''registering the endpoint'', method, path]) path method handler
      else Logger_Error s [''Unsupported method'', method])"

text \<open>
  \<open>registerKrakendEndpoints\<close>: \<open>ProxyFactory\<close> builds the proxy of an endpoint or
  fails; \<open>HandlerFactory\<close> builds the handler.
\<close>

fun registerKrakendEndpoints ::
  "(endpoint_config \<Rightarrow> go_error + 'p) \<Rightarrow> (endpoint_config \<Rightarrow> 'p \<Rightarrow> 'h) \<Rightarrow> endpoint_config list
     \<Rightarrow> 'h router_state \<Rightarrow> 'h router_state" where
  "registerKrakendEndpoints ProxyFactory HandlerFactory [] s = s"
| "registerKrakendEndpoints ProxyFactory HandlerFactory (c # cs) s =
     (case ProxyFactory c of
        Inl err \<Rightarrow> registerKrakendEndpoints ProxyFactory HandlerFactory cs
                     (Logger_Error s [''calling the ProxyFactory'', Error_msg err])
      | Inr proxyStack \<Rightarrow> registerKrakendEndpoints ProxyFactory HandlerFactory cs
                     (registerKrakendEndpoint (cfg_Method c) (Endpoint c) (HandlerFactory c proxyStack)
                        (int (length (Backend c))) s))"

text \<open>
  The rule of registration in words, to compare the code with: the upper-cased
  method is one of the five supported ones, and it is GET or there is at most one
  backend.
\<close>

definition supported_method :: "string \<Rightarrow> bool" where
  "supported_method m = (m \<in> {MethodGet, MethodPost, MethodPut, MethodPatch, MethodDelete})"

definition registrable :: "string \<Rightarrow> int \<Rightarrow> bool" where
  "registrable method totBackends =
     (supported_method (ToTitle method) \<and> (ToTitle method = MethodGet \<or> totBackends \<le> 1))"

section \<open>The hedging middleware\<close>

text \<open>
  Modelled from the spec: \<open>NewConcurrentMiddleware\<close> of package \<open>proxy\<close> is outside the
  files at hand (only a benchmark calls it). The spec gives its algorithm: issue
  \<open>N = ConcurrentCalls\<close> identical calls; return the first result whose error is
  absent, by arrival order; if all \<open>N\<close> calls fail, return the error of the call that
  completed last; \<open>N = 1\<close> is a pass-through. An execution in which every call completes
  is given by the list of the calls' results in the order of their completion, an error
  as \<open>Inl\<close>. The list is empty when no call was made.
\<close>

fun first_non_error :: "go_error \<Rightarrow> (go_error + 'a) list \<Rightarrow> go_error + 'a" where
  "first_non_error last_err [] = Inl last_err"
| "first_non_error last_err (Inr v # rs) = Inr v"
| "first_non_error last_err (Inl e # rs) = first_non_error e rs"

definition ConcurrentMiddleware :: "(go_error + 'a) list \<Rightarrow> (go_error + 'a) option" where
  "ConcurrentMiddleware arrivals =
     (case arrivals of
        [] \<Rightarrow> None
      | Inr v # rs \<Rightarrow> Some (Inr v)
      | Inl e # rs \<Rightarrow> Some (first_non_error e rs))"

section \<open>The fixtures of the tests (router/mux/endpoint_test.go)\<close>

text \<open>
  Values for the constants of the packages \<open>router\<close> and \<open>core\<close>: the gateway header
  and the user agent are the ones the tests read (\<open>X-Krakend: Version undefined\<close>,
  \<open>KrakenD Version undefined\<close>); the completeness header is given a name and two
  distinct values. Then the endpoint of \<open>endpointHandlerTestCase\<close>, its
  request with the query \<open>b=1&c[]=x&c[]=y&d=1&d=2&a=42\<close> and the header
  \<open>Content-Type: application/json\<close> in a store that holds nothing else, a fresh
  recorder, \<open>proxy.NoopProxy\<close>, which returns nil and nil, and a response with the data
  \<open>{"foo": "bar"}\<close> as the tests' proxies return it. \<open>stub_render\<close> stands
  for a JSON render whose output is only the empty object for nil and an opaque text
  otherwise.
\<close>

definition test_pkg :: router_pkg where
  "test_pkg = \<lparr>KrakendHeaderName = ''X-KrakenD'', KrakendHeaderValue = ''Version undefined'',
     CompleteResponseHeaderName = ''X-Krakend-Completed'',
     HeaderCompleteResponseValue = ''true'', HeaderIncompleteResponseValue = ''false'',
     HeadersToSend = [''Content-Type''], UserAgentHeaderValue = [''KrakenD Version undefined''],
     ErrInternalError = Error ''internal server error''\<rparr>"

definition Hour :: int where "Hour = 3600 * Second"

definition test_endpoint :: "int \<Rightarrow> endpoint_config" where
  "test_endpoint timeout = \<lparr>Endpoint = [], cfg_Method = ''GET'', Backend = [], Timeout = timeout,
     CacheTTL = 6 * Hour, QueryString = [''b'', ''c[]'', ''d''], HeadersToPass = [],
     OutputEncoding = []\<rparr>"

definition test_query :: "string \<rightharpoonup> string list" where
  "test_query = [''b'' \<mapsto> [''1''], ''c[]'' \<mapsto> [''x'', ''y''], ''d'' \<mapsto> [''1'', ''2''], ''a'' \<mapsto> [''42'']]"

definition test_request :: "string \<Rightarrow> http_request" where
  "test_request m = \<lparr>Method = m, Header = 0, RemoteAddr = [], URL_Query = test_query, Body = []\<rparr>"

definition test_store :: store where
  "test_store = \<lparr>maps = (\<lambda>a. Map.empty)(0 := [''Content-Type'' \<mapsto> [''application/json'']]),
     next_addr = 1\<rparr>"

definition NewRecorder :: response_writer where
  "NewRecorder = \<lparr>w_header = Map.empty, w_status = None, w_body = []\<rparr>"

definition NoopProxy :: "('q, 'v) proxy" where
  "NoopProxy q = (None, None, False)"

definition test_response :: "bool \<Rightarrow> (string \<times> string list) list \<Rightarrow> string response" where
  "test_response complete hs = \<lparr>Data = [(''foo'', ''bar'')], IsComplete = complete,
     Metadata = \<lparr>Headers = hs, StatusCode = 200\<rparr>, Io = None\<rparr>"

definition stub_render :: "endpoint_config \<Rightarrow> string render" where
  "stub_render cfg w response =
     Inr (Write (w_Set w ''Content-Type'' ''application/json'')
            (case response of None \<Rightarrow> ''{}'' | Some resp \<Rightarrow> ''{...}''))"

section \<open>Lemmas on strings, headers and writers\<close>

lemmas key_defs = CanonicalMIMEHeaderKey_def validHeaderFieldByte_def lower_letters_def
  upper_letters_def to_upper_def to_lower_def Let_def

lemmas fixture_defs = test_pkg_def test_endpoint_def test_request_def NewRecorder_def NoopProxy_def
  stub_render_def Hour_def Second_def

lemma to_upper_idem: "to_upper (to_upper c) = to_upper c"
  by (simp add: to_upper_def lower_letters_def upper_letters_def)

lemma ToTitle_idem: "ToTitle (ToTitle s) = ToTitle s"
  by (simp add: ToTitle_def to_upper_idem)

lemma ToTitle_GET: "ToTitle ''GET'' = ''GET''" "ToTitle ''get'' = ''GET''"
  by (simp_all add: ToTitle_def to_upper_def lower_letters_def upper_letters_def)

lemma canon_Content_Type: "CanonicalMIMEHeaderKey ''Content-Type'' = ''Content-Type''"
  by (simp add: key_defs)

lemma canon_Nosniff: "CanonicalMIMEHeaderKey ''X-Content-Type-Options'' = ''X-Content-Type-Options''"
  by (simp add: key_defs)

lemma canon_Cache_Control: "CanonicalMIMEHeaderKey ''Cache-Control'' = ''Cache-Control''"
  by (simp add: key_defs)

lemma canon_test_names:
  "CanonicalMIMEHeaderKey ''X-Krakend-Completed'' = ''X-Krakend-Completed''"
  "CanonicalMIMEHeaderKey ''X-KrakenD'' = ''X-Krakend''"
  by (simp_all add: key_defs)

lemma http_Error_valid:
  assumes "w_status w = None" and "100 \<le> code" and "code \<le> 999"
  shows "\<exists>w'. http_Error w msg code = Inr w'
            \<and> w_header w' = (w_header w)(''Content-Type'' \<mapsto> [''text/plain; charset=utf-8''],
                                          ''X-Content-Type-Options'' \<mapsto> [''nosniff''])
            \<and> w_status w' = Some code
            \<and> w_body w' = w_body w @ msg @ [CHR 0x0A]"
  using assms
  by (simp add: http_Error_def Write_def WriteHeader_def w_Set_def Header_Set_def Let_def
      canon_Content_Type canon_Nosniff)

lemma http_Error_invalid:
  assumes "w_status w = None" and "code < 100 \<or> code > 999"
  shows "http_Error w msg code = Inl InvalidWriteHeaderCode"
  using assms
  by (auto simp add: http_Error_def WriteHeader_def w_Set_def Let_def)

lemma w_Set_simps:
  "w_status (w_Set w k v) = w_status w" "w_body (w_Set w k v) = w_body w"
  "w_header (w_Set w k v) = (w_header w)(CanonicalMIMEHeaderKey k \<mapsto> [v])"
  by (simp_all add: w_Set_def Header_Set_def)

lemma w_Add_simps:
  "w_status (w_Add w k v) = w_status w" "w_body (w_Add w k v) = w_body w"
  "k' \<noteq> CanonicalMIMEHeaderKey k \<Longrightarrow> w_header (w_Add w k v) k' = w_header w k'"
  by (simp_all add: w_Add_def Header_Add_def)

lemma add_values_simps:
  "w_status (foldl (\<lambda>w v. w_Add w k v) w vs) = w_status w"
  "w_body (foldl (\<lambda>w v. w_Add w k v) w vs) = w_body w"
  "k' \<noteq> CanonicalMIMEHeaderKey k \<Longrightarrow> w_header (foldl (\<lambda>w v. w_Add w k v) w vs) k' = w_header w k'"
  by (induction vs arbitrary: w) (simp_all add: w_Add_simps)

lemma add_headers_status: "w_status (add_headers w hs) = w_status w"
  by (induction hs arbitrary: w) (simp_all add: add_headers_def add_values_simps split: prod.splits)

lemma add_headers_body: "w_body (add_headers w hs) = w_body w"
  by (induction hs arbitrary: w) (simp_all add: add_headers_def add_values_simps split: prod.splits)

lemma add_values_first:
  "w_header w k' = Some (v # vs) \<Longrightarrow> \<exists>vs'. w_header (foldl (\<lambda>w x. w_Add w k x) w xs) k' = Some (v # vs')"
proof (induction xs arbitrary: w vs)
  case Nil
  then show ?case by simp
next
  case (Cons x xs)
  have "\<exists>vs1. w_header (w_Add w k x) k' = Some (v # vs1)"
    using Cons.prems by (cases "k' = CanonicalMIMEHeaderKey k") (simp_all add: w_Add_def Header_Add_def)
  then obtain vs1 where "w_header (w_Add w k x) k' = Some (v # vs1)"
    by blast
  from Cons.IH [OF this] show ?case by simp
qed

lemma add_headers_first:
  "w_header w k' = Some (v # vs) \<Longrightarrow> \<exists>vs'. w_header (add_headers w hs) k' = Some (v # vs')"
proof (induction hs arbitrary: w vs)
  case Nil
  then show ?case by (simp add: add_headers_def)
next
  case (Cons h hs)
  obtain k xs where h: "h = (k, xs)"
    by (cases h)
  from add_values_first [OF Cons.prems, of k xs]
  obtain vs1 where "w_header (foldl (\<lambda>w x. w_Add w k x) w xs) k' = Some (v # vs1)"
    by blast
  from Cons.IH [OF this] h show ?case
    by (simp add: add_headers_def)
qed

lemma add_headers_other:
  "\<forall>(k, vs) \<in> set hs. CanonicalMIMEHeaderKey k \<noteq> k' \<Longrightarrow> w_header (add_headers w hs) k' = w_header w k'"
  by (induction hs arbitrary: w) (auto simp: add_headers_def add_values_simps split: prod.splits)

section \<open>The endpoint handler, branch by branch\<close>

lemma handler_mismatch:
  "Method r \<noteq> ToTitle (cfg_Method configuration) \<Longrightarrow>
   CustomEndpointHandlerWithHTTPError P muxRender rb errF configuration prxy w r =
     (http_Error (w_Set (w_Set w (KrakendHeaderName P) (KrakendHeaderValue P))
         (CompleteResponseHeaderName P) (HeaderIncompleteResponseValue P)) [] StatusMethodNotAllowed, [])"
  by (simp add: CustomEndpointHandlerWithHTTPError_def Let_def)

lemma handler_data:
  assumes "Method r = ToTitle (cfg_Method configuration)"
    and "prxy (built P rb configuration r) = (Some resp, err0, ctx_done)"
    and "Data resp \<noteq> []"
  shows "CustomEndpointHandlerWithHTTPError P muxRender rb errF configuration prxy w r =
     (muxRender configuration
        (add_headers
           (if IsComplete resp then
              (if CacheTTL configuration \<noteq> 0 then
                 w_Set (w_Set (w_Set w (KrakendHeaderName P) (KrakendHeaderValue P))
                     (CompleteResponseHeaderName P) (HeaderCompleteResponseValue P))
                   ''Cache-Control'' (''public, max-age='' @ fmt_d (Seconds_int (CacheTTL configuration)))
               else w_Set (w_Set w (KrakendHeaderName P) (KrakendHeaderValue P))
                     (CompleteResponseHeaderName P) (HeaderCompleteResponseValue P))
            else w_Set (w_Set w (KrakendHeaderName P) (KrakendHeaderValue P))
                     (CompleteResponseHeaderName P) (HeaderIncompleteResponseValue P))
           (Headers (Metadata resp)))
        (Some resp),
      [built P rb configuration r])"
  using assms
  by (simp add: CustomEndpointHandlerWithHTTPError_def built_def Let_def Seconds_is_zero_def)

lemma handler_error_result:
  assumes "Method r = ToTitle (cfg_Method configuration)"
    and "prxy (built P rb configuration r) = (response, err0, ctx_done)"
    and "response = None \<or> Data (the response) = []"
    and "(if ctx_done \<and> err0 = None then Some (ErrInternalError P) else err0) = Some e"
  shows "CustomEndpointHandlerWithHTTPError P muxRender rb errF configuration prxy w r =
           (http_Error (w_Set (w_Set w (KrakendHeaderName P) (KrakendHeaderValue P))
                 (CompleteResponseHeaderName P) (HeaderIncompleteResponseValue P)) (Error_msg e)
              (case as_responseError e of Some code \<Rightarrow> code | None \<Rightarrow> errF e),
            [built P rb configuration r])"
  using assms
  by (auto simp add: CustomEndpointHandlerWithHTTPError_def built_def Let_def split: option.splits if_splits)

lemma handler_data_writer:
  assumes "Method r = ToTitle (cfg_Method configuration)"
    and "prxy (built P rb configuration r) = (Some resp, err0, ctx_done)"
    and "Data resp \<noteq> []"
  shows "\<exists>w1. (\<forall>mr. CustomEndpointHandlerWithHTTPError P mr rb errF configuration prxy w r
                   = (mr configuration (add_headers w1 (Headers (Metadata resp))) (Some resp),
                      [built P rb configuration r]))
            \<and> w_status w1 = w_status w \<and> w_body w1 = w_body w
            \<and> (CanonicalMIMEHeaderKey (CompleteResponseHeaderName P) \<noteq> ''Cache-Control'' \<longrightarrow>
                 w_header w1 (CanonicalMIMEHeaderKey (CompleteResponseHeaderName P)) =
                   Some [if IsComplete resp then HeaderCompleteResponseValue P else HeaderIncompleteResponseValue P])
            \<and> (IsComplete resp \<and> CacheTTL configuration \<noteq> 0 \<longrightarrow>
                 w_header w1 ''Cache-Control'' =
                   Some [''public, max-age='' @ fmt_d (Seconds_int (CacheTTL configuration))])
            \<and> (\<not> (IsComplete resp \<and> CacheTTL configuration \<noteq> 0) \<longrightarrow>
                 CanonicalMIMEHeaderKey (CompleteResponseHeaderName P) \<noteq> ''Cache-Control'' \<longrightarrow>
                 CanonicalMIMEHeaderKey (KrakendHeaderName P) \<noteq> ''Cache-Control'' \<longrightarrow>
                 w_header w1 ''Cache-Control'' = w_header w ''Cache-Control'')"
proof -
  let ?w1 = "(if IsComplete resp then
              (if CacheTTL configuration \<noteq> 0 then
                 w_Set (w_Set (w_Set w (KrakendHeaderName P) (KrakendHeaderValue P))
                     (CompleteResponseHeaderName P) (HeaderCompleteResponseValue P))
                   ''Cache-Control'' (''public, max-age='' @ fmt_d (Seconds_int (CacheTTL configuration)))
               else w_Set (w_Set w (KrakendHeaderName P) (KrakendHeaderValue P))
                     (CompleteResponseHeaderName P) (HeaderCompleteResponseValue P))
            else w_Set (w_Set w (KrakendHeaderName P) (KrakendHeaderValue P))
                     (CompleteResponseHeaderName P) (HeaderIncompleteResponseValue P))"
  have "\<forall>mr. CustomEndpointHandlerWithHTTPError P mr rb errF configuration prxy w r
                   = (mr configuration (add_headers ?w1 (Headers (Metadata resp))) (Some resp),
                      [built P rb configuration r])"
    using assms by (intro allI) (rule handler_data [where prxy = prxy])
  then show ?thesis
    by (intro exI [of _ ?w1]) (simp add: w_Set_simps canon_Cache_Control)
qed

section \<open>The loops of the request builder\<close>

lemma query_loop_result:
  "query_loop query queryValues ks =
     (if requestParamsAsterisk \<in> set ks then queryValues
      else (\<lambda>k. if k \<in> set ks \<and> (\<exists>v. queryValues k = Some v \<and> v \<noteq> []) then queryValues k
                else query k))"
proof (induction ks arbitrary: query)
  case Nil
  then show ?case by simp
next
  case (Cons k ks)
  show ?case
  proof (cases "k = requestParamsAsterisk")
    case True
    then show ?thesis by simp
  next
    case False
    then show ?thesis
      by (cases "queryValues k") (auto simp: Cons.IH fun_eq_iff)
  qed
qed

lemma map_assign_simps:
  "next_addr (map_assign st a k v) = next_addr st"
  "maps (map_assign st a k v) a = (maps st a)(k \<mapsto> v)"
  "b \<noteq> a \<Longrightarrow> maps (map_assign st a k v) b = maps st b"
  by (simp_all add: map_assign_def)

lemma headers_loop_result:
  "snd (headers_loop st headers rh ks) = (if requestParamsAsterisk \<in> set ks then rh else headers)
   \<and> next_addr (fst (headers_loop st headers rh ks)) = next_addr st
   \<and> (\<forall>a. a \<noteq> headers \<longrightarrow> maps (fst (headers_loop st headers rh ks)) a = maps st a)"
proof (induction ks arbitrary: st)
  case Nil
  then show ?case by simp
next
  case (Cons k ks)
  show ?case
  proof (cases "k = requestParamsAsterisk")
    case True
    then show ?thesis by simp
  next
    case False
    then show ?thesis
      by (cases "maps st rh (CanonicalMIMEHeaderKey k)") (auto simp: Cons.IH map_assign_simps)
  qed
qed

lemma headers_loop_content:
  assumes "requestParamsAsterisk \<notin> set ks" and "headers \<noteq> rh"
  shows "maps (fst (headers_loop st headers rh ks)) headers =
           (\<lambda>k. if k \<in> set ks \<and> maps st rh (CanonicalMIMEHeaderKey k) \<noteq> None
                then maps st rh (CanonicalMIMEHeaderKey k) else maps st headers k)"
  using assms
proof (induction ks arbitrary: st)
  case Nil
  then show ?case by simp
next
  case (Cons k ks)
  then have k: "k \<noteq> requestParamsAsterisk" and ks: "requestParamsAsterisk \<notin> set ks"
    by auto
  show ?case
  proof (cases "maps st rh (CanonicalMIMEHeaderKey k)")
    case None
    with k Cons.IH [OF ks Cons.prems(2), of st] show ?thesis
      by (auto simp: fun_eq_iff)
  next
    case (Some h)
    have rh: "maps (map_assign st headers k h) rh = maps st rh"
      using Cons.prems(2) by (simp add: map_assign_simps)
    from k Some Cons.IH [OF ks Cons.prems(2), of "map_assign st headers k h"] show ?thesis
      by (auto simp: fun_eq_iff rh map_assign_simps)
  qed
qed

section \<open>Lemmas on the hedging middleware\<close>

lemma first_non_error_all_failed:
  "\<forall>r \<in> set rs. isl r \<Longrightarrow> first_non_error e rs = last (Inl e # rs)"
proof (induction rs arbitrary: e)
  case Nil
  then show ?case by simp
next
  case (Cons r rs)
  then obtain e' where "r = Inl e'"
    by (cases r) auto
  with Cons show ?case by simp
qed

lemma first_non_error_some_success:
  "\<exists>r \<in> set rs. \<not> isl r \<Longrightarrow> Some (first_non_error e rs) = find (\<lambda>r. \<not> isl r) rs"
proof (induction rs arbitrary: e)
  case Nil
  then show ?case by simp
next
  case (Cons r rs)
  show ?case
  proof (cases r)
    case (Inl e')
    with Cons show ?thesis by simp
  next
    case (Inr v)
    then show ?thesis by simp
  qed
qed

lemma hedged_all_failed:
  assumes "arrivals \<noteq> []" and "\<forall>r \<in> set arrivals. isl r"
  shows "ConcurrentMiddleware arrivals = Some (last arrivals)"
proof -
  from assms obtain e rs where a: "arrivals = Inl e # rs"
    by (cases arrivals) (auto elim: sum.exhaust [of "hd arrivals"] simp: isl_def)
  with assms(2) have "first_non_error e rs = last (Inl e # rs)"
    by (intro first_non_error_all_failed) simp
  with a show ?thesis
    by (simp add: ConcurrentMiddleware_def)
qed

lemma hedged_some_success:
  assumes "\<exists>r \<in> set arrivals. \<not> isl r"
  shows "ConcurrentMiddleware arrivals = find (\<lambda>r. \<not> isl r) arrivals"
proof (cases arrivals)
  case Nil
  with assms show ?thesis by simp
next
  case (Cons r rs)
  show ?thesis
  proof (cases r)
    case (Inl e)
    with Cons assms have "\<exists>r \<in> set rs. \<not> isl r"
      by simp
    from first_non_error_some_success [OF this, of e] Cons Inl show ?thesis
      by (simp add: ConcurrentMiddleware_def)
  next
    case (Inr v)
    with Cons show ?thesis
      by (simp add: ConcurrentMiddleware_def)
  qed
qed

lemma failures_lt_length: "length (filter isl rs) < length rs \<longleftrightarrow> (\<exists>r \<in> set rs. \<not> isl r)"
proof
  assume lt: "length (filter isl rs) < length rs"
  show "\<exists>r \<in> set rs. \<not> isl r"
  proof (rule ccontr)
    assume "\<not> (\<exists>r \<in> set rs. \<not> isl r)"
    then have "filter isl rs = rs"
      by (simp add: filter_id_conv)
    with lt show False by simp
  qed
next
  assume "\<exists>r \<in> set rs. \<not> isl r"
  then show "length (filter isl rs) < length rs"
    by (auto intro: length_filter_less)
qed

section \<open>Lemmas on registration\<close>

lemma register_accepted:
  "registrable verb totBackends \<Longrightarrow>
   registerKrakendEndpoint verb path handler totBackends s =
     s\<lparr>handled := handled s @ [(path, ToTitle verb, handler)],
       logged := logged s @ [LogDebug [''registering the endpoint'', ToTitle verb, path]]\<rparr>"
  by (auto simp: registrable_def supported_method_def registerKrakendEndpoint_def Let_def Engine_Handle_def
        Logger_Debug_def)

lemma register_rejected:
  "\<not> registrable verb totBackends \<Longrightarrow>
   handled (registerKrakendEndpoint verb path handler totBackends s) = handled s
   \<and> (\<exists>msg. logged (registerKrakendEndpoint verb path handler totBackends s) = logged s @ [LogError msg])"
  by (auto simp: registrable_def supported_method_def registerKrakendEndpoint_def Let_def Logger_Error_def)

lemma register_handled_cases:
  "handled (registerKrakendEndpoint verb path handler totBackends s) =
     (if registrable verb totBackends then handled s @ [(path, ToTitle verb, handler)] else handled s)"
  by (simp add: register_accepted register_rejected)

lemma registered_endpoints:
  "\<exists>hs. handled (registerKrakendEndpoints ProxyFactory HandlerFactory cs s) = handled s @ hs
        \<and> (\<forall>(p, m, h) \<in> set hs. \<exists>c \<in> set cs. p = Endpoint c \<and> m = ToTitle (cfg_Method c)
               \<and> registrable (cfg_Method c) (int (length (Backend c))))"
proof (induction cs arbitrary: s)
  case Nil
  then show ?case by simp
next
  case (Cons c cs)
  show ?case
  proof (cases "ProxyFactory c")
    case (Inl err)
    from Cons.IH [of "Logger_Error s [''calling the ProxyFactory'', Error_msg err]"]
    show ?thesis
      using Inl by (fastforce simp: Logger_Error_def)
  next
    case (Inr proxyStack)
    let ?s1 = "registerKrakendEndpoint (cfg_Method c) (Endpoint c) (HandlerFactory c proxyStack)
                 (int (length (Backend c))) s"
    from Cons.IH [of ?s1] obtain hs where hs:
      "handled (registerKrakendEndpoints ProxyFactory HandlerFactory cs ?s1) = handled ?s1 @ hs"
      "\<forall>(p, m, h) \<in> set hs. \<exists>c \<in> set cs. p = Endpoint c \<and> m = ToTitle (cfg_Method c)
               \<and> registrable (cfg_Method c) (int (length (Backend c)))"
      by blast
    show ?thesis
    proof (cases "registrable (cfg_Method c) (int (length (Backend c)))")
      case True
      with hs Inr show ?thesis
        by (intro exI [of _ "(Endpoint c, ToTitle (cfg_Method c), HandlerFactory c proxyStack) # hs"])
           (auto simp: register_handled_cases)
    next
      case False
      with hs Inr show ?thesis
        by (intro exI [of _ hs]) (auto simp: register_handled_cases)
    qed
  qed
qed

section \<open>Lemmas on the noop render\<close>

text \<open>What \<open>noopRender\<close> does write: the positive status, and the reader's content.\<close>

lemma noop_headers_keeps:
  "noop_headers c hs = Inr c' \<Longrightarrow> c_status c' = c_status c \<and> c_body c' = c_body c"
proof (induction hs arbitrary: c)
  case Nil
  then show ?case by simp
next
  case (Cons h hs)
  obtain k v where h: "h = (k, v)"
    by (cases h)
  show ?case
  proof (cases v)
    case Nil
    with Cons.prems h show ?thesis by simp
  next
    case (Cons v0 vs)
    with Cons.prems h have "noop_headers (c_Header c k v0) hs = Inr c'"
      by simp
    from Cons.IH [OF this] show ?thesis
      by (simp add: c_Header_def)
  qed
qed

lemma noopRender_status_body:
  assumes "noopRender c (Some resp) = Inr c'"
  shows "c_status c' = (if StatusCode (Metadata resp) > 0 then StatusCode (Metadata resp) else c_status c)
       \<and> (\<exists>bs. Io resp = Some bs \<and> c_body c' = c_body c @ bs)"
proof -
  from assms obtain c1 where c1:
    "noop_headers (c_Status c (StatusCode (Metadata resp))) (Headers (Metadata resp)) = Inr c1"
    "io_Copy c1 (Io resp) = Inr c'"
    by (auto simp: noopRender_def split: sum.splits)
  from c1(2) obtain bs where bs: "Io resp = Some bs" "c' = c1\<lparr>c_body := c_body c1 @ bs\<rparr>"
    by (auto simp: io_Copy_def split: option.splits)
  from noop_headers_keeps [OF c1(1)] bs show ?thesis
    by (simp add: c_Status_def)
qed

section \<open>The claims\<close>

text \<open>
  C1 (as amended). For an endpoint whose configured method is ASCII text: a request
  whose method is not exactly the upper-cased \<open>EndpointConfig.Method\<close> (in particular
  every ASCII method that does not match it case-insensitively) gets the completeness
  header "incomplete", the status 405 and a body that is the empty message followed by
  a newline, and the proxy is never called (the answer is the same whatever the proxy
  is). The letter case of \<open>EndpointConfig.Method\<close> is ignored, the inbound method must
  be the upper-case form: then the proxy is called once, with the built request.
\<close>

theorem method_mismatch_405:
  assumes "is_ascii (cfg_Method configuration)"
    and "w_status w = None"
    and "CanonicalMIMEHeaderKey (CompleteResponseHeaderName P) \<notin> {''Content-Type'', ''X-Content-Type-Options''}"
  shows "(Method r \<noteq> ToTitle (cfg_Method configuration) \<longrightarrow>
           (\<exists>w'. CustomEndpointHandlerWithHTTPError P muxRender rb errF configuration prxy w r = (Inr w', [])
               \<and> w_header w' (CanonicalMIMEHeaderKey (CompleteResponseHeaderName P))
                    = Some [HeaderIncompleteResponseValue P]
               \<and> w_status w' = Some 405
               \<and> w_body w' = w_body w @ [CHR 0x0A])
           \<and> (\<forall>prxy'. CustomEndpointHandlerWithHTTPError P muxRender rb errF configuration prxy' w r
                        = CustomEndpointHandlerWithHTTPError P muxRender rb errF configuration prxy w r))
       \<and> (is_ascii (Method r) \<and> \<not> EqualFold (Method r) (cfg_Method configuration) \<longrightarrow>
            Method r \<noteq> ToTitle (cfg_Method configuration))
       \<and> (Method r = ToTitle (cfg_Method configuration) \<longrightarrow>
           snd (CustomEndpointHandlerWithHTTPError P muxRender rb errF configuration prxy w r)
             = [built P rb configuration r])"
proof (intro conjI impI)
  assume m: "Method r \<noteq> ToTitle (cfg_Method configuration)"
  let ?w1 = "w_Set (w_Set w (KrakendHeaderName P) (KrakendHeaderValue P))
               (CompleteResponseHeaderName P) (HeaderIncompleteResponseValue P)"
  have "w_status ?w1 = None"
    using assms(2) by (simp add: w_Set_simps)
  from http_Error_valid [OF this, of StatusMethodNotAllowed "[]"]
  obtain w' where w': "http_Error ?w1 [] StatusMethodNotAllowed = Inr w'"
    "w_header w' = (w_header ?w1)(''Content-Type'' \<mapsto> [''text/plain; charset=utf-8''],
                                  ''X-Content-Type-Options'' \<mapsto> [''nosniff''])"
    "w_status w' = Some StatusMethodNotAllowed" "w_body w' = w_body ?w1 @ [] @ [CHR 0x0A]"
    by (auto simp: StatusMethodNotAllowed_def)
  show "\<exists>w'. CustomEndpointHandlerWithHTTPError P muxRender rb errF configuration prxy w r = (Inr w', [])
               \<and> w_header w' (CanonicalMIMEHeaderKey (CompleteResponseHeaderName P))
                    = Some [HeaderIncompleteResponseValue P]
               \<and> w_status w' = Some 405
               \<and> w_body w' = w_body w @ [CHR 0x0A]"
    using assms(3) w'
    by (intro exI [of _ w']) (simp add: handler_mismatch [OF m] w_Set_simps StatusMethodNotAllowed_def)
  show "\<forall>prxy'. CustomEndpointHandlerWithHTTPError P muxRender rb errF configuration prxy' w r
                 = CustomEndpointHandlerWithHTTPError P muxRender rb errF configuration prxy w r"
    by (simp add: handler_mismatch [OF m])
next
  assume "is_ascii (Method r) \<and> \<not> EqualFold (Method r) (cfg_Method configuration)"
  then show "Method r \<noteq> ToTitle (cfg_Method configuration)"
    by (auto simp: EqualFold_def ToTitle_idem)
next
  assume "Method r = ToTitle (cfg_Method configuration)"
  then show "snd (CustomEndpointHandlerWithHTTPError P muxRender rb errF configuration prxy w r)
       = [built P rb configuration r]"
    by (simp add: CustomEndpointHandlerWithHTTPError_def built_def Let_def split: prod.splits option.splits)
qed

text \<open>
  The test \<open>TestEndpointHandler_badMethod\<close> (a PUT to the GET endpoint), and a GET to
  an endpoint configured as \<open>get\<close>.
\<close>

theorem method_mismatch_405_witness:
  "is_ascii (cfg_Method (test_endpoint 10))
   \<and> w_status NewRecorder = None
   \<and> CanonicalMIMEHeaderKey (CompleteResponseHeaderName test_pkg) \<notin> {''Content-Type'', ''X-Content-Type-Options''}
   \<and> Method (test_request ''PUT'') \<noteq> ToTitle (cfg_Method (test_endpoint 10))
   \<and> is_ascii (Method (test_request ''PUT''))
   \<and> \<not> EqualFold (Method (test_request ''PUT'')) (cfg_Method (test_endpoint 10))
   \<and> (\<exists>w'. CustomEndpointHandlerWithHTTPError test_pkg stub_render (\<lambda>r qs hs. qs) DefaultToHTTPError
              (test_endpoint 10) NoopProxy NewRecorder (test_request ''PUT'') = (Inr w', [])
          \<and> w_header w' ''X-Krakend-Completed'' = Some [''false'']
          \<and> w_status w' = Some 405 \<and> w_body w' = [CHR 0x0A])
   \<and> is_ascii (cfg_Method ((test_endpoint 10)\<lparr>cfg_Method := ''get''\<rparr>))
   \<and> Method (test_request ''GET'') = ToTitle (cfg_Method ((test_endpoint 10)\<lparr>cfg_Method := ''get''\<rparr>))
   \<and> snd (CustomEndpointHandlerWithHTTPError test_pkg stub_render (\<lambda>r qs hs. qs) DefaultToHTTPError
            ((test_endpoint 10)\<lparr>cfg_Method := ''get''\<rparr>) NoopProxy NewRecorder (test_request ''GET''))
       = [[''b'', ''c[]'', ''d'']]"
proof -
  have a: "is_ascii (cfg_Method (test_endpoint 10))" "is_ascii (Method (test_request ''PUT''))"
    "is_ascii (cfg_Method ((test_endpoint 10)\<lparr>cfg_Method := ''get''\<rparr>))"
    by (simp_all add: is_ascii_def test_endpoint_def test_request_def)
  have f: "w_status NewRecorder = None"
    by (simp add: NewRecorder_def)
  have n: "CanonicalMIMEHeaderKey (CompleteResponseHeaderName test_pkg) \<notin> {''Content-Type'', ''X-Content-Type-Options''}"
    by (simp add: test_pkg_def canon_test_names)
  have m1: "Method (test_request ''PUT'') \<noteq> ToTitle (cfg_Method (test_endpoint 10))"
    by (simp add: test_request_def test_endpoint_def ToTitle_GET)
  have e1: "\<not> EqualFold (Method (test_request ''PUT'')) (cfg_Method (test_endpoint 10))"
    by (simp add: test_request_def test_endpoint_def EqualFold_def ToTitle_def to_upper_def
          lower_letters_def upper_letters_def)
  have m2: "Method (test_request ''GET'') = ToTitle (cfg_Method ((test_endpoint 10)\<lparr>cfg_Method := ''get''\<rparr>))"
    by (simp add: test_request_def ToTitle_GET)
  have c: "CanonicalMIMEHeaderKey (CompleteResponseHeaderName test_pkg) = ''X-Krakend-Completed''"
    "HeaderIncompleteResponseValue test_pkg = ''false''" "w_body NewRecorder = []"
    by (simp_all add: test_pkg_def canon_test_names NewRecorder_def)
  note t1 = method_mismatch_405 [where P = test_pkg and configuration = "test_endpoint 10" and w = NewRecorder
      and r = "test_request ''PUT''" and muxRender = stub_render and rb = "\<lambda>r qs hs. qs"
      and errF = DefaultToHTTPError and prxy = NoopProxy, OF a(1) f n, THEN conjunct1, rule_format,
      OF m1, THEN conjunct1]
  note t2 = method_mismatch_405 [where P = test_pkg and configuration = "(test_endpoint 10)\<lparr>cfg_Method := ''get''\<rparr>"
      and w = NewRecorder and r = "test_request ''GET''" and muxRender = stub_render and rb = "\<lambda>r qs hs. qs"
      and errF = DefaultToHTTPError and prxy = NoopProxy, OF a(3) f n, THEN conjunct2, THEN conjunct2,
      rule_format, OF m2]
  from t1 have g1: "\<exists>w'. CustomEndpointHandlerWithHTTPError test_pkg stub_render (\<lambda>r qs hs. qs) DefaultToHTTPError
              (test_endpoint 10) NoopProxy NewRecorder (test_request ''PUT'') = (Inr w', [])
          \<and> w_header w' ''X-Krakend-Completed'' = Some [''false'']
          \<and> w_status w' = Some 405 \<and> w_body w' = [CHR 0x0A]"
    by (simp add: c)
  from t2 have g2: "snd (CustomEndpointHandlerWithHTTPError test_pkg stub_render (\<lambda>r qs hs. qs) DefaultToHTTPError
            ((test_endpoint 10)\<lparr>cfg_Method := ''get''\<rparr>) NoopProxy NewRecorder (test_request ''GET''))
       = [[''b'', ''c[]'', ''d'']]"
    by (simp add: built_def test_endpoint_def)
  show ?thesis
    using a f n m1 e1 g1 m2 g2 by blast
qed

text \<open>
  C1 as stated fails: the request method \<open>get\<close> matches the endpoint's \<open>GET\<close> up to
  letter case, yet the handler answers 405 and does not call the proxy; and the body
  of the 405 is a newline, not empty.
\<close>

theorem method_case_counterexample:
  "EqualFold (Method (test_request ''get'')) (cfg_Method (test_endpoint 10))
   \<and> is_ascii (Method (test_request ''get'')) \<and> is_ascii (cfg_Method (test_endpoint 10))
   \<and> CustomEndpointHandlerWithHTTPError test_pkg stub_render (\<lambda>r qs hs. qs) DefaultToHTTPError
        (test_endpoint 10) NoopProxy NewRecorder (test_request ''get'')
     = (Inr \<lparr>w_header = [''X-Krakend'' \<mapsto> [''Version undefined''], ''X-Krakend-Completed'' \<mapsto> [''false''],
                          ''Content-Type'' \<mapsto> [''text/plain; charset=utf-8''],
                          ''X-Content-Type-Options'' \<mapsto> [''nosniff'']],
             w_status = Some 405, w_body = [CHR 0x0A]\<rparr>, [])"
  by (simp add: handler_mismatch fixture_defs ToTitle_GET EqualFold_def canon_test_names is_ascii_def
        http_Error_def w_Set_def Header_Set_def WriteHeader_def Write_def canon_Content_Type canon_Nosniff
        StatusMethodNotAllowed_def StatusOK_def Let_def)

text \<open>
  C2 (as amended). For an endpoint whose configured method is ASCII text: when the
  context is done as the proxy returns and the proxy gave no error, the handler takes
  the generic internal error. Without a response with data it is written as an error:
  the status of the error mapping when that is a valid code (500 with the default
  mapping; a mapping to a code outside 100 to 999 makes \<open>http.Error\<close> panic), the
  completeness header "incomplete" and the message with a newline as the body. With
  a response with data, the response goes to the render through the normal path, the
  handler writing no status and no body of its own; the completeness header of the
  writer the render receives then follows \<open>Response.IsComplete\<close> (it is the first
  value, and the only one unless the metadata headers bring the same header):
  "incomplete" for an incomplete response, "complete" for a complete one.
\<close>

theorem deadline_without_error:
  assumes "is_ascii (cfg_Method configuration)"
    and "Method r = ToTitle (cfg_Method configuration)"
    and "prxy (built P rb configuration r) = (response, None, True)"
    and "w_status w = None"
    and "CanonicalMIMEHeaderKey (CompleteResponseHeaderName P)
           \<notin> {''Content-Type'', ''X-Content-Type-Options'', ''Cache-Control''}"
    and "as_responseError (ErrInternalError P) = None"
  shows "(response = None \<or> Data (the response) = [] \<longrightarrow>
           (100 \<le> errF (ErrInternalError P) \<and> errF (ErrInternalError P) \<le> 999 \<longrightarrow>
              (\<exists>w'. CustomEndpointHandlerWithHTTPError P muxRender rb errF configuration prxy w r
                      = (Inr w', [built P rb configuration r])
                  \<and> w_header w' (CanonicalMIMEHeaderKey (CompleteResponseHeaderName P))
                       = Some [HeaderIncompleteResponseValue P]
                  \<and> w_status w' = Some (errF (ErrInternalError P))
                  \<and> w_body w' = w_body w @ Error_msg (ErrInternalError P) @ [CHR 0x0A]))
           \<and> (errF (ErrInternalError P) < 100 \<or> errF (ErrInternalError P) > 999 \<longrightarrow>
                 CustomEndpointHandlerWithHTTPError P muxRender rb errF configuration prxy w r
                   = (Inl InvalidWriteHeaderCode, [built P rb configuration r]))
           \<and> (\<exists>w'. CustomEndpointHandler P muxRender rb configuration prxy w r
                      = (Inr w', [built P rb configuration r])
                  \<and> w_header w' (CanonicalMIMEHeaderKey (CompleteResponseHeaderName P))
                       = Some [HeaderIncompleteResponseValue P]
                  \<and> w_status w' = Some 500
                  \<and> w_body w' = w_body w @ Error_msg (ErrInternalError P) @ [CHR 0x0A]))
       \<and> (response \<noteq> None \<and> Data (the response) \<noteq> [] \<longrightarrow>
           (\<exists>w2. (\<forall>mr. CustomEndpointHandlerWithHTTPError P mr rb errF configuration prxy w r
                        = (mr configuration w2 response, [built P rb configuration r]))
                 \<and> w_status w2 = None \<and> w_body w2 = w_body w
                 \<and> (\<exists>more. w_header w2 (CanonicalMIMEHeaderKey (CompleteResponseHeaderName P)) =
                       Some ((if IsComplete (the response) then HeaderCompleteResponseValue P
                              else HeaderIncompleteResponseValue P) # more))
                 \<and> (CanonicalMIMEHeaderKey (CompleteResponseHeaderName P)
                       \<notin> set (map (CanonicalMIMEHeaderKey \<circ> fst) (Headers (Metadata (the response)))) \<longrightarrow>
                     w_header w2 (CanonicalMIMEHeaderKey (CompleteResponseHeaderName P)) =
                       Some [if IsComplete (the response) then HeaderCompleteResponseValue P
                             else HeaderIncompleteResponseValue P])))"
proof (intro conjI impI)
  assume nd: "response = None \<or> Data (the response) = []"
  let ?w1 = "w_Set (w_Set w (KrakendHeaderName P) (KrakendHeaderValue P))
               (CompleteResponseHeaderName P) (HeaderIncompleteResponseValue P)"
  let ?E = "ErrInternalError P"
  have e: "(if True \<and> (None :: go_error option) = None then Some ?E else None) = Some ?E"
    by simp
  have res: "CustomEndpointHandlerWithHTTPError P muxRender rb ef configuration prxy w r =
           (http_Error ?w1 (Error_msg ?E) (ef ?E), [built P rb configuration r])" for ef
    using handler_error_result [where prxy = prxy and errF = ef and muxRender = muxRender and w = w,
        OF assms(2,3) nd e] assms(6)
    by simp
  have fresh: "w_status ?w1 = None"
    using assms(4) by (simp add: w_Set_simps)
  have valid: "\<exists>w'. http_Error ?w1 (Error_msg ?E) code = Inr w'
                 \<and> w_header w' (CanonicalMIMEHeaderKey (CompleteResponseHeaderName P))
                      = Some [HeaderIncompleteResponseValue P]
                 \<and> w_status w' = Some code
                 \<and> w_body w' = w_body w @ Error_msg ?E @ [CHR 0x0A]"
    if "100 \<le> code" "code \<le> 999" for code
  proof -
    from http_Error_valid [OF fresh that, of "Error_msg ?E"]
    obtain w' where w': "http_Error ?w1 (Error_msg ?E) code = Inr w'"
      "w_header w' = (w_header ?w1)(''Content-Type'' \<mapsto> [''text/plain; charset=utf-8''],
                                    ''X-Content-Type-Options'' \<mapsto> [''nosniff''])"
      "w_status w' = Some code" "w_body w' = w_body ?w1 @ Error_msg ?E @ [CHR 0x0A]"
      by blast
    with assms(5) show ?thesis
      by (intro exI [of _ w']) (simp add: w_Set_simps)
  qed
  {
    assume "100 \<le> errF ?E \<and> errF ?E \<le> 999"
    with valid [of "errF ?E"]
    show "\<exists>w'. CustomEndpointHandlerWithHTTPError P muxRender rb errF configuration prxy w r
                      = (Inr w', [built P rb configuration r])
                  \<and> w_header w' (CanonicalMIMEHeaderKey (CompleteResponseHeaderName P))
                       = Some [HeaderIncompleteResponseValue P]
                  \<and> w_status w' = Some (errF ?E)
                  \<and> w_body w' = w_body w @ Error_msg ?E @ [CHR 0x0A]"
      by (simp add: res)
  }
  {
    assume "errF ?E < 100 \<or> errF ?E > 999"
    with http_Error_invalid [OF fresh, of "errF ?E" "Error_msg ?E"]
    show "CustomEndpointHandlerWithHTTPError P muxRender rb errF configuration prxy w r
                   = (Inl InvalidWriteHeaderCode, [built P rb configuration r])"
      by (simp add: res)
  }
  from valid [of 500]
  show "\<exists>w'. CustomEndpointHandler P muxRender rb configuration prxy w r
                      = (Inr w', [built P rb configuration r])
                  \<and> w_header w' (CanonicalMIMEHeaderKey (CompleteResponseHeaderName P))
                       = Some [HeaderIncompleteResponseValue P]
                  \<and> w_status w' = Some 500
                  \<and> w_body w' = w_body w @ Error_msg ?E @ [CHR 0x0A]"
    by (simp add: CustomEndpointHandler_def res DefaultToHTTPError_def StatusInternalServerError_def)
next
  assume d: "response \<noteq> None \<and> Data (the response) \<noteq> []"
  then obtain resp where resp: "response = Some resp" "Data resp \<noteq> []"
    by auto
  let ?K = "CanonicalMIMEHeaderKey (CompleteResponseHeaderName P)"
  let ?v = "if IsComplete resp then HeaderCompleteResponseValue P else HeaderIncompleteResponseValue P"
  from assms(3) resp have p: "prxy (built P rb configuration r) = (Some resp, None, True)"
    by simp
  from handler_data_writer [where prxy = prxy, OF assms(2) p resp(2), of errF w]
  obtain w1 where w1:
    "\<forall>mr. CustomEndpointHandlerWithHTTPError P mr rb errF configuration prxy w r
         = (mr configuration (add_headers w1 (Headers (Metadata resp))) (Some resp),
            [built P rb configuration r])"
    "w_status w1 = w_status w" "w_body w1 = w_body w"
    "?K \<noteq> ''Cache-Control'' \<longrightarrow> w_header w1 ?K = Some [?v]"
    by blast
  let ?w2 = "add_headers w1 (Headers (Metadata resp))"
  have k: "w_header w1 ?K = Some [?v]"
    using w1(4) assms(5) by simp
  from add_headers_first [OF k, of "Headers (Metadata resp)"]
  have first: "\<exists>more. w_header ?w2 ?K = Some (?v # more)" .
  have only: "w_header ?w2 ?K = Some [?v]"
    if "?K \<notin> set (map (CanonicalMIMEHeaderKey \<circ> fst) (Headers (Metadata resp)))"
  proof -
    from that have "\<forall>(k, vs) \<in> set (Headers (Metadata resp)). CanonicalMIMEHeaderKey k \<noteq> ?K"
      by force
    from add_headers_other [OF this] k show ?thesis
      by simp
  qed
  show "\<exists>w2. (\<forall>mr. CustomEndpointHandlerWithHTTPError P mr rb errF configuration prxy w r
                        = (mr configuration w2 response, [built P rb configuration r]))
                 \<and> w_status w2 = None \<and> w_body w2 = w_body w
                 \<and> (\<exists>more. w_header w2 (CanonicalMIMEHeaderKey (CompleteResponseHeaderName P)) =
                       Some ((if IsComplete (the response) then HeaderCompleteResponseValue P
                              else HeaderIncompleteResponseValue P) # more))
                 \<and> (CanonicalMIMEHeaderKey (CompleteResponseHeaderName P)
                       \<notin> set (map (CanonicalMIMEHeaderKey \<circ> fst) (Headers (Metadata (the response)))) \<longrightarrow>
                     w_header w2 (CanonicalMIMEHeaderKey (CompleteResponseHeaderName P)) =
                       Some [if IsComplete (the response) then HeaderCompleteResponseValue P
                             else HeaderIncompleteResponseValue P])"
    using w1(1-3) assms(4) resp first only
    by (intro exI [of _ ?w2]) (simp add: add_headers_status add_headers_body)
qed

text \<open>
  The tests \<open>TestEndpointHandler_cancelEmpty\<close> (nil and nil after the deadline) and
  \<open>TestEndpointHandler_cancel\<close> (an incomplete response with data after the deadline).
\<close>

theorem deadline_without_error_witness:
  "is_ascii (cfg_Method (test_endpoint 0))
   \<and> Method (test_request ''GET'') = ToTitle (cfg_Method (test_endpoint 0))
   \<and> w_status NewRecorder = None
   \<and> CanonicalMIMEHeaderKey (CompleteResponseHeaderName test_pkg)
        \<notin> {''Content-Type'', ''X-Content-Type-Options'', ''Cache-Control''}
   \<and> as_responseError (ErrInternalError test_pkg) = None
   \<and> (\<exists>w'. CustomEndpointHandler test_pkg stub_render (\<lambda>r qs hs. qs)
              (test_endpoint 0) (\<lambda>q. (None, None, True)) NewRecorder (test_request ''GET'')
            = (Inr w', [[''b'', ''c[]'', ''d'']])
          \<and> w_header w' ''X-Krakend-Completed'' = Some [''false'']
          \<and> w_status w' = Some 500
          \<and> w_body w' = ''internal server error'' @ [CHR 0x0A])
   \<and> Data (test_response False []) \<noteq> []
   \<and> (\<exists>w2. (\<forall>mr. CustomEndpointHandlerWithHTTPError test_pkg mr (\<lambda>r qs hs. qs) DefaultToHTTPError
                  (test_endpoint 0) (\<lambda>q. (Some (test_response False []), None, True))
                  NewRecorder (test_request ''GET'')
                = (mr (test_endpoint 0) w2 (Some (test_response False [])), [[''b'', ''c[]'', ''d'']]))
            \<and> w_status w2 = None \<and> w_body w2 = []
            \<and> w_header w2 ''X-Krakend-Completed'' = Some [''false''])"
proof -
  let ?resp = "test_response False []"
  have a: "is_ascii (cfg_Method (test_endpoint 0))"
    by (simp add: is_ascii_def test_endpoint_def)
  have m: "Method (test_request ''GET'') = ToTitle (cfg_Method (test_endpoint 0))"
    by (simp add: fixture_defs ToTitle_GET)
  have f: "w_status NewRecorder = None"
    by (simp add: NewRecorder_def)
  have n: "CanonicalMIMEHeaderKey (CompleteResponseHeaderName test_pkg)
             \<notin> {''Content-Type'', ''X-Content-Type-Options'', ''Cache-Control''}"
    by (simp add: test_pkg_def canon_test_names)
  have i: "as_responseError (ErrInternalError test_pkg) = None"
    by (simp add: test_pkg_def)
  have p1: "(\<lambda>q. (None :: string response option, None, True))
              (built test_pkg (\<lambda>r qs hs. qs) (test_endpoint 0) (test_request ''GET'')) = (None, None, True)"
    by simp
  have p2: "(\<lambda>q. (Some ?resp, None, True))
              (built test_pkg (\<lambda>r qs hs. qs) (test_endpoint 0) (test_request ''GET'')) = (Some ?resp, None, True)"
    by simp
  have d: "Data ?resp \<noteq> []"
    by (simp add: test_response_def)
  have c: "CanonicalMIMEHeaderKey (CompleteResponseHeaderName test_pkg) = ''X-Krakend-Completed''"
    "HeaderIncompleteResponseValue test_pkg = ''false''" "w_body NewRecorder = []"
    "Error_msg (ErrInternalError test_pkg) = ''internal server error''"
    "Headers (Metadata ?resp) = []" "\<not> IsComplete ?resp"
    "built test_pkg (\<lambda>r qs hs. qs) (test_endpoint 0) (test_request ''GET'') = [''b'', ''c[]'', ''d'']"
    by (simp_all add: test_pkg_def canon_test_names NewRecorder_def test_response_def built_def
          test_endpoint_def)
  note t1 = deadline_without_error [where prxy = "\<lambda>q. (None, None, True)" and rb = "\<lambda>r qs hs. qs"
      and P = test_pkg and configuration = "test_endpoint 0" and r = "test_request ''GET''"
      and w = NewRecorder and response = None and errF = DefaultToHTTPError and muxRender = stub_render,
      OF a m p1 f n i, THEN conjunct1]
  note t2 = deadline_without_error [where prxy = "\<lambda>q. (Some ?resp, None, True)" and rb = "\<lambda>r qs hs. qs"
      and P = test_pkg and configuration = "test_endpoint 0" and r = "test_request ''GET''"
      and w = NewRecorder and response = "Some ?resp" and errF = DefaultToHTTPError and muxRender = stub_render,
      OF a m p2 f n i, THEN conjunct2]
  from t1 have g1: "\<exists>w'. CustomEndpointHandler test_pkg stub_render (\<lambda>r qs hs. qs)
              (test_endpoint 0) (\<lambda>q. (None, None, True)) NewRecorder (test_request ''GET'')
            = (Inr w', [[''b'', ''c[]'', ''d'']])
          \<and> w_header w' ''X-Krakend-Completed'' = Some [''false'']
          \<and> w_status w' = Some 500
          \<and> w_body w' = ''internal server error'' @ [CHR 0x0A]"
    by (simp add: c)
  from t2 d have g2: "\<exists>w2. (\<forall>mr. CustomEndpointHandlerWithHTTPError test_pkg mr (\<lambda>r qs hs. qs) DefaultToHTTPError
                  (test_endpoint 0) (\<lambda>q. (Some ?resp, None, True))
                  NewRecorder (test_request ''GET'')
                = (mr (test_endpoint 0) w2 (Some ?resp), [[''b'', ''c[]'', ''d'']]))
            \<and> w_status w2 = None \<and> w_body w2 = []
            \<and> w_header w2 ''X-Krakend-Completed'' = Some [''false'']"
    by (simp add: c) blast
  show ?thesis
    using a m f n i g1 d g2 by blast
qed

text \<open>
  C2 as stated fails: a complete response with data that arrives with the context done
  is answered as a complete one, with the completeness header "complete" (here
  \<open>true\<close>, not \<open>false\<close>) and the \<open>Cache-Control\<close> header.
\<close>

theorem deadline_complete_counterexample:
  "HeaderIncompleteResponseValue test_pkg = ''false''
   \<and> (\<exists>w'. CustomEndpointHandlerWithHTTPError test_pkg stub_render (\<lambda>r qs hs. qs) DefaultToHTTPError
              (test_endpoint 0) (\<lambda>q. (Some (test_response True []), None, True))
              NewRecorder (test_request ''GET'') = (Inr w', [[''b'', ''c[]'', ''d'']])
          \<and> w_header w' ''X-Krakend-Completed'' = Some [''true'']
          \<and> w_header w' ''Cache-Control'' = Some [''public, max-age=21600''])"
  by (simp add: CustomEndpointHandlerWithHTTPError_def fixture_defs test_response_def ToTitle_GET Let_def
        Seconds_is_zero_def Seconds_int_def fmt_d_def digits.simps add_headers_def
        w_Set_def w_Add_def Header_Set_def Header_Add_def Write_def
        canon_test_names canon_Cache_Control canon_Content_Type)

text \<open>
  C3 (as amended). For an endpoint whose configured method is ASCII text, when the
  proxy returns an error and no response with data: the status is the error's own
  status code when it has one and the status of the pluggable mapping otherwise (500
  with the default mapping). When that status is a valid code (100 to 999), the
  handler sets the completeness header to "incomplete" and writes that status, with
  the error's message and a newline as a plain-text body. When it is not, \<open>http.Error\<close>
  panics in \<open>WriteHeader\<close> and no response is written. The render plays no part in
  either case.
\<close>

theorem error_without_data:
  assumes "is_ascii (cfg_Method configuration)"
    and "Method r = ToTitle (cfg_Method configuration)"
    and "prxy (built P rb configuration r) = (response, Some e, ctx_done)"
    and "response = None \<or> Data (the response) = []"
    and "w_status w = None"
    and "CanonicalMIMEHeaderKey (CompleteResponseHeaderName P) \<notin> {''Content-Type'', ''X-Content-Type-Options''}"
  shows "(let code = (case as_responseError e of Some c \<Rightarrow> c | None \<Rightarrow> errF e) in
          (100 \<le> code \<and> code \<le> 999 \<longrightarrow>
             (\<exists>w'. CustomEndpointHandlerWithHTTPError P muxRender rb errF configuration prxy w r
                     = (Inr w', [built P rb configuration r])
                 \<and> w_header w' (CanonicalMIMEHeaderKey (CompleteResponseHeaderName P))
                      = Some [HeaderIncompleteResponseValue P]
                 \<and> w_status w' = Some code
                 \<and> w_header w' ''Content-Type'' = Some [''text/plain; charset=utf-8'']
                 \<and> w_body w' = w_body w @ Error_msg e @ [CHR 0x0A]))
          \<and> (code < 100 \<or> code > 999 \<longrightarrow>
                CustomEndpointHandlerWithHTTPError P muxRender rb errF configuration prxy w r
                  = (Inl InvalidWriteHeaderCode, [built P rb configuration r])))
       \<and> (\<forall>muxRender'. CustomEndpointHandlerWithHTTPError P muxRender' rb errF configuration prxy w r
                        = CustomEndpointHandlerWithHTTPError P muxRender rb errF configuration prxy w r)
       \<and> (as_responseError e = None \<longrightarrow>
            (\<exists>w'. CustomEndpointHandler P muxRender rb configuration prxy w r
                    = (Inr w', [built P rb configuration r])
                \<and> w_status w' = Some 500
                \<and> w_body w' = w_body w @ Error_msg e @ [CHR 0x0A]))"
proof -
  let ?w1 = "w_Set (w_Set w (KrakendHeaderName P) (KrakendHeaderValue P))
               (CompleteResponseHeaderName P) (HeaderIncompleteResponseValue P)"
  have e: "(if ctx_done \<and> Some e = None then Some (ErrInternalError P) else Some e) = Some e"
    by simp
  have res: "CustomEndpointHandlerWithHTTPError P mr rb ef configuration prxy w r =
           (http_Error ?w1 (Error_msg e)
              (case as_responseError e of Some code \<Rightarrow> code | None \<Rightarrow> ef e),
            [built P rb configuration r])" for mr ef
    using assms(2-4) e by (rule handler_error_result [where prxy = prxy])
  have fresh: "w_status ?w1 = None"
    using assms(5) by (simp add: w_Set_simps)
  have valid: "\<exists>w'. http_Error ?w1 (Error_msg e) code = Inr w'
                 \<and> w_header w' (CanonicalMIMEHeaderKey (CompleteResponseHeaderName P))
                      = Some [HeaderIncompleteResponseValue P]
                 \<and> w_status w' = Some code
                 \<and> w_header w' ''Content-Type'' = Some [''text/plain; charset=utf-8'']
                 \<and> w_body w' = w_body w @ Error_msg e @ [CHR 0x0A]"
    if "100 \<le> code" "code \<le> 999" for code
  proof -
    from http_Error_valid [OF fresh that, of "Error_msg e"]
    obtain w' where w': "http_Error ?w1 (Error_msg e) code = Inr w'"
      "w_header w' = (w_header ?w1)(''Content-Type'' \<mapsto> [''text/plain; charset=utf-8''],
                                    ''X-Content-Type-Options'' \<mapsto> [''nosniff''])"
      "w_status w' = Some code" "w_body w' = w_body ?w1 @ Error_msg e @ [CHR 0x0A]"
      by blast
    with assms(6) show ?thesis
      by (intro exI [of _ w']) (simp add: w_Set_simps)
  qed
  have invalid: "http_Error ?w1 (Error_msg e) code = Inl InvalidWriteHeaderCode"
    if "code < 100 \<or> code > 999" for code
    using fresh that by (rule http_Error_invalid)
  have default: "\<exists>w'. CustomEndpointHandler P muxRender rb configuration prxy w r
                    = (Inr w', [built P rb configuration r])
                \<and> w_status w' = Some 500
                \<and> w_body w' = w_body w @ Error_msg e @ [CHR 0x0A]"
    if "as_responseError e = None"
  proof -
    from valid [of 500] obtain w' where "http_Error ?w1 (Error_msg e) 500 = Inr w'"
      "w_status w' = Some 500" "w_body w' = w_body w @ Error_msg e @ [CHR 0x0A]"
      by auto
    with that show ?thesis
      by (intro exI [of _ w'])
         (simp add: CustomEndpointHandler_def res DefaultToHTTPError_def StatusInternalServerError_def)
  qed
  show ?thesis
    using valid invalid default by (simp add: res Let_def)
qed

text \<open>
  The tests \<open>TestEndpointHandler_errored_responseError\<close> (an error with the status
  418) and \<open>TestEndpointHandler_ko\<close> (a plain error).
\<close>

theorem error_without_data_witness:
  "is_ascii (cfg_Method (test_endpoint 10))
   \<and> Method (test_request ''GET'') = ToTitle (cfg_Method (test_endpoint 10))
   \<and> w_status NewRecorder = None
   \<and> CanonicalMIMEHeaderKey (CompleteResponseHeaderName test_pkg) \<notin> {''Content-Type'', ''X-Content-Type-Options''}
   \<and> (\<exists>w'. CustomEndpointHandlerWithHTTPError test_pkg stub_render (\<lambda>r qs hs. qs) DefaultToHTTPError
              (test_endpoint 10)
              (\<lambda>q. (None, Some (ResponseError ''this is a dummy error'' 418), False))
              NewRecorder (test_request ''GET'') = (Inr w', [[''b'', ''c[]'', ''d'']])
          \<and> w_header w' ''X-Krakend-Completed'' = Some [''false'']
          \<and> w_status w' = Some 418
          \<and> w_header w' ''Content-Type'' = Some [''text/plain; charset=utf-8'']
          \<and> w_body w' = ''this is a dummy error'' @ [CHR 0x0A])
   \<and> as_responseError (Error ''This is a dummy error'') = None
   \<and> (\<exists>w'. CustomEndpointHandler test_pkg stub_render (\<lambda>r qs hs. qs) (test_endpoint 10)
              (\<lambda>q. (None, Some (Error ''This is a dummy error''), False))
              NewRecorder (test_request ''GET'') = (Inr w', [[''b'', ''c[]'', ''d'']])
          \<and> w_status w' = Some 500
          \<and> w_body w' = ''This is a dummy error'' @ [CHR 0x0A])"
proof -
  have a: "is_ascii (cfg_Method (test_endpoint 10))"
    by (simp add: is_ascii_def test_endpoint_def)
  have m: "Method (test_request ''GET'') = ToTitle (cfg_Method (test_endpoint 10))"
    by (simp add: fixture_defs ToTitle_GET)
  have f: "w_status NewRecorder = None"
    by (simp add: NewRecorder_def)
  have n: "CanonicalMIMEHeaderKey (CompleteResponseHeaderName test_pkg) \<notin> {''Content-Type'', ''X-Content-Type-Options''}"
    by (simp add: test_pkg_def canon_test_names)
  have p1: "(\<lambda>q. (None :: string response option, Some (ResponseError ''this is a dummy error'' 418), False))
              (built test_pkg (\<lambda>r qs hs. qs) (test_endpoint 10) (test_request ''GET''))
            = (None, Some (ResponseError ''this is a dummy error'' 418), False)"
    by simp
  have p2: "(\<lambda>q. (None :: string response option, Some (Error ''This is a dummy error''), False))
              (built test_pkg (\<lambda>r qs hs. qs) (test_endpoint 10) (test_request ''GET''))
            = (None, Some (Error ''This is a dummy error''), False)"
    by simp
  have d: "(None :: string response option) = None \<or> Data (the (None :: string response option)) = []"
    by simp
  note t1 = error_without_data [where prxy = "\<lambda>q. (None, Some (ResponseError ''this is a dummy error'' 418), False)"
      and muxRender = stub_render and errF = DefaultToHTTPError and rb = "\<lambda>r qs hs. qs" and P = test_pkg
      and configuration = "test_endpoint 10" and r = "test_request ''GET''" and w = NewRecorder
      and response = None and ctx_done = False, OF a m p1 d f n, THEN conjunct1]
  note t2 = error_without_data [where prxy = "\<lambda>q. (None, Some (Error ''This is a dummy error''), False)"
      and muxRender = stub_render and errF = DefaultToHTTPError and rb = "\<lambda>r qs hs. qs" and P = test_pkg
      and configuration = "test_endpoint 10" and r = "test_request ''GET''" and w = NewRecorder
      and response = None and ctx_done = False, OF a m p2 d f n, THEN conjunct2, THEN conjunct2]
  have c1: "CanonicalMIMEHeaderKey (CompleteResponseHeaderName test_pkg) = ''X-Krakend-Completed''"
    "HeaderIncompleteResponseValue test_pkg = ''false''" "w_body NewRecorder = []"
    "built test_pkg (\<lambda>r qs hs. qs) (test_endpoint 10) (test_request ''GET'') = [''b'', ''c[]'', ''d'']"
    by (simp_all add: test_pkg_def canon_test_names NewRecorder_def built_def test_endpoint_def)
  from t1 have g1: "\<exists>w'. CustomEndpointHandlerWithHTTPError test_pkg stub_render (\<lambda>r qs hs. qs) DefaultToHTTPError
              (test_endpoint 10)
              (\<lambda>q. (None, Some (ResponseError ''this is a dummy error'' 418), False))
              NewRecorder (test_request ''GET'') = (Inr w', [[''b'', ''c[]'', ''d'']])
          \<and> w_header w' ''X-Krakend-Completed'' = Some [''false'']
          \<and> w_status w' = Some 418
          \<and> w_header w' ''Content-Type'' = Some [''text/plain; charset=utf-8'']
          \<and> w_body w' = ''this is a dummy error'' @ [CHR 0x0A]"
    by (simp add: c1 Let_def)
  from t2 have g2: "\<exists>w'. CustomEndpointHandler test_pkg stub_render (\<lambda>r qs hs. qs) (test_endpoint 10)
              (\<lambda>q. (None, Some (Error ''This is a dummy error''), False))
              NewRecorder (test_request ''GET'') = (Inr w', [[''b'', ''c[]'', ''d'']])
          \<and> w_status w' = Some 500
          \<and> w_body w' = ''This is a dummy error'' @ [CHR 0x0A]"
    by (simp add: c1)
  have i: "as_responseError (Error ''This is a dummy error'') = None"
    by simp
  show ?thesis
    using a m f n g1 i g2 by blast
qed

text \<open>
  C3 as stated fails: for an error whose \<open>StatusCode()\<close> is 0 the handler does not
  answer with that status and the message; \<open>http.Error\<close> panics in \<open>WriteHeader\<close> and
  nothing is written.
\<close>

theorem error_status_counterexample:
  "as_responseError (ResponseError ''boom'' 0) = Some 0
   \<and> CustomEndpointHandlerWithHTTPError test_pkg stub_render (\<lambda>r qs hs. qs) DefaultToHTTPError
        (test_endpoint 10) (\<lambda>q. (None, Some (ResponseError ''boom'' 0), False))
        NewRecorder (test_request ''GET'')
     = (Inl InvalidWriteHeaderCode, [[''b'', ''c[]'', ''d'']])"
  by (simp add: CustomEndpointHandlerWithHTTPError_def fixture_defs ToTitle_GET Let_def
        http_Error_def WriteHeader_def w_Set_def)

text \<open>
  C4 (as amended). For an endpoint whose configured method is ASCII text and whose
  \<open>CacheTTL\<close> is below \<open>2^24\<close> seconds in magnitude (where the floating-point seconds
  of the code are the whole seconds), and a response with data: the handler itself
  sets \<open>Cache-Control: public, max-age=<CacheTTL in whole seconds>\<close> exactly when the
  response is complete and \<open>CacheTTL\<close> is not zero (a negative \<open>CacheTTL\<close> enables
  it too). The headers of \<open>Metadata.Headers\<close> are added afterwards, so the statement
  is for a response whose metadata has no \<open>Cache-Control\<close> key, on a writer that had
  none: then the writer given to the render carries exactly that value, or no
  \<open>Cache-Control\<close> at all.
\<close>

theorem cache_control_header:
  assumes "is_ascii (cfg_Method configuration)"
    and "exact_seconds (CacheTTL configuration)"
    and "Method r = ToTitle (cfg_Method configuration)"
    and "prxy (built P rb configuration r) = (Some resp, err0, ctx_done)"
    and "Data resp \<noteq> []"
    and "w_header w ''Cache-Control'' = None"
    and "CanonicalMIMEHeaderKey (KrakendHeaderName P) \<noteq> ''Cache-Control''"
    and "CanonicalMIMEHeaderKey (CompleteResponseHeaderName P) \<noteq> ''Cache-Control''"
    and "''Cache-Control'' \<notin> set (map (CanonicalMIMEHeaderKey \<circ> fst) (Headers (Metadata resp)))"
  shows "\<exists>w2. (\<forall>mr. fst (CustomEndpointHandlerWithHTTPError P mr rb errF configuration prxy w r)
                   = mr configuration w2 (Some resp))
            \<and> w_header w2 ''Cache-Control'' =
                (if IsComplete resp \<and> CacheTTL configuration \<noteq> 0
                 then Some [''public, max-age='' @ fmt_d (Seconds_int (CacheTTL configuration))]
                 else None)"
proof -
  from handler_data_writer [where prxy = prxy, OF assms(3-5)]
  obtain w1 where w1:
    "\<forall>mr. CustomEndpointHandlerWithHTTPError P mr rb errF configuration prxy w r
         = (mr configuration (add_headers w1 (Headers (Metadata resp))) (Some resp),
            [built P rb configuration r])"
    "IsComplete resp \<and> CacheTTL configuration \<noteq> 0 \<longrightarrow>
       w_header w1 ''Cache-Control'' = Some [''public, max-age='' @ fmt_d (Seconds_int (CacheTTL configuration))]"
    "\<not> (IsComplete resp \<and> CacheTTL configuration \<noteq> 0) \<longrightarrow>
       CanonicalMIMEHeaderKey (CompleteResponseHeaderName P) \<noteq> ''Cache-Control'' \<longrightarrow>
       CanonicalMIMEHeaderKey (KrakendHeaderName P) \<noteq> ''Cache-Control'' \<longrightarrow>
       w_header w1 ''Cache-Control'' = w_header w ''Cache-Control''"
    by blast
  have other: "\<forall>(k, vs) \<in> set (Headers (Metadata resp)). CanonicalMIMEHeaderKey k \<noteq> ''Cache-Control''"
    using assms(9) by force
  have "w_header (add_headers w1 (Headers (Metadata resp))) ''Cache-Control'' = w_header w1 ''Cache-Control''"
    by (rule add_headers_other [OF other])
  with w1 assms(6-8) show ?thesis
    by (intro exI [of _ "add_headers w1 (Headers (Metadata resp))"]) auto
qed

text \<open>
  The test \<open>TestEndpointHandler_okAllParams\<close>: a complete response with the metadata
  header \<open>X-YZ\<close> and \<open>CacheTTL\<close> of six hours gives \<open>public, max-age=21600\<close>.
\<close>

theorem cache_control_header_witness:
  "is_ascii (cfg_Method (test_endpoint 10))
   \<and> exact_seconds (CacheTTL (test_endpoint 10))
   \<and> Method (test_request ''GET'') = ToTitle (cfg_Method (test_endpoint 10))
   \<and> Data (test_response True [(''X-YZ'', [''something''])]) \<noteq> []
   \<and> w_header NewRecorder ''Cache-Control'' = None
   \<and> CanonicalMIMEHeaderKey (KrakendHeaderName test_pkg) \<noteq> ''Cache-Control''
   \<and> CanonicalMIMEHeaderKey (CompleteResponseHeaderName test_pkg) \<noteq> ''Cache-Control''
   \<and> ''Cache-Control'' \<notin> set (map (CanonicalMIMEHeaderKey \<circ> fst)
         (Headers (Metadata (test_response True [(''X-YZ'', [''something''])]))))
   \<and> (\<exists>w2. (\<forall>mr. fst (CustomEndpointHandlerWithHTTPError test_pkg mr (\<lambda>r qs hs. qs) DefaultToHTTPError
                       (test_endpoint 10)
                       (\<lambda>q. (Some (test_response True [(''X-YZ'', [''something''])]), None, False))
                       NewRecorder (test_request ''GET''))
                   = mr (test_endpoint 10) w2 (Some (test_response True [(''X-YZ'', [''something''])])))
            \<and> w_header w2 ''Cache-Control'' = Some [''public, max-age=21600''])"
proof -
  let ?resp = "test_response True [(''X-YZ'', [''something''])]"
  have a: "is_ascii (cfg_Method (test_endpoint 10))"
    by (simp add: is_ascii_def test_endpoint_def)
  have x: "exact_seconds (CacheTTL (test_endpoint 10))"
    by (simp add: exact_seconds_def test_endpoint_def Hour_def Second_def)
  have m: "Method (test_request ''GET'') = ToTitle (cfg_Method (test_endpoint 10))"
    by (simp add: fixture_defs ToTitle_GET)
  have p: "(\<lambda>q. (Some ?resp, None, False)) (built test_pkg (\<lambda>r qs hs. qs) (test_endpoint 10) (test_request ''GET''))
            = (Some ?resp, None, False)"
    by simp
  have d: "Data ?resp \<noteq> []"
    by (simp add: test_response_def)
  have f: "w_header NewRecorder ''Cache-Control'' = None"
    by (simp add: NewRecorder_def)
  have n1: "CanonicalMIMEHeaderKey (KrakendHeaderName test_pkg) \<noteq> ''Cache-Control''"
    by (simp add: test_pkg_def canon_test_names)
  have n2: "CanonicalMIMEHeaderKey (CompleteResponseHeaderName test_pkg) \<noteq> ''Cache-Control''"
    by (simp add: test_pkg_def canon_test_names)
  have h: "''Cache-Control'' \<notin> set (map (CanonicalMIMEHeaderKey \<circ> fst) (Headers (Metadata ?resp)))"
    by (simp add: test_response_def key_defs)
  have v: "IsComplete ?resp" "CacheTTL (test_endpoint 10) \<noteq> 0"
    "fmt_d (Seconds_int (CacheTTL (test_endpoint 10))) = ''21600''"
    by (simp_all add: test_response_def test_endpoint_def Hour_def Second_def fmt_d_def Seconds_int_def digits.simps)
  note t = cache_control_header [where prxy = "\<lambda>q. (Some ?resp, None, False)" and rb = "\<lambda>r qs hs. qs"
      and P = test_pkg and configuration = "test_endpoint 10" and r = "test_request ''GET''"
      and w = NewRecorder and resp = ?resp and errF = DefaultToHTTPError,
      OF a x m p d f n1 n2 h]
  from t have g: "\<exists>w2. (\<forall>mr. fst (CustomEndpointHandlerWithHTTPError test_pkg mr (\<lambda>r qs hs. qs) DefaultToHTTPError
                       (test_endpoint 10) (\<lambda>q. (Some ?resp, None, False)) NewRecorder (test_request ''GET''))
                   = mr (test_endpoint 10) w2 (Some ?resp))
            \<and> w_header w2 ''Cache-Control'' = Some [''public, max-age=21600'']"
    by (simp add: v)
  show ?thesis
    using a x m d f n1 n2 h g by blast
qed

text \<open>
  C4 as stated fails twice. An incomplete response whose metadata brings its own
  \<open>Cache-Control\<close> header is answered with that header; and a complete response with
  a negative \<open>CacheTTL\<close> (one second before zero) is answered with
  \<open>Cache-Control: public, max-age=-1\<close>.
\<close>

theorem cache_control_counterexample:
  "\<not> IsComplete (test_response False [(''Cache-Control'', [''no-cache''])])
   \<and> (\<exists>w'. CustomEndpointHandlerWithHTTPError test_pkg stub_render (\<lambda>r qs hs. qs) DefaultToHTTPError
              (test_endpoint 10)
              (\<lambda>q. (Some (test_response False [(''Cache-Control'', [''no-cache''])]), None, False))
              NewRecorder (test_request ''GET'') = (Inr w', [[''b'', ''c[]'', ''d'']])
          \<and> w_header w' ''Cache-Control'' = Some [''no-cache''])
   \<and> \<not> CacheTTL ((test_endpoint 10)\<lparr>CacheTTL := - Second\<rparr>) > 0
   \<and> exact_seconds (CacheTTL ((test_endpoint 10)\<lparr>CacheTTL := - Second\<rparr>))
   \<and> (\<exists>w'. CustomEndpointHandlerWithHTTPError test_pkg stub_render (\<lambda>r qs hs. qs) DefaultToHTTPError
              ((test_endpoint 10)\<lparr>CacheTTL := - Second\<rparr>)
              (\<lambda>q. (Some (test_response True []), None, False))
              NewRecorder (test_request ''GET'') = (Inr w', [[''b'', ''c[]'', ''d'']])
          \<and> w_header w' ''Cache-Control'' = Some [''public, max-age=-1''])"
  by (simp add: CustomEndpointHandlerWithHTTPError_def fixture_defs test_response_def ToTitle_GET Let_def
        Seconds_is_zero_def Seconds_int_def fmt_d_def digits.simps add_headers_def exact_seconds_def
        w_Set_def w_Add_def Header_Set_def Header_Add_def Write_def
        canon_test_names canon_Cache_Control canon_Content_Type)

text \<open>
  C5. The outbound query is the whole inbound query when the list contains \<open>*\<close>, and
  otherwise holds exactly the listed names that the inbound query has with a
  non-empty list of values, each with all its values in order.
\<close>

theorem query_selection:
  "req_Query (fst (NewRequestBuilder P FindAllStringSubmatch paramExtractor r queryString headersToSend st)) =
     (if requestParamsAsterisk \<in> set queryString then URL_Query r
      else (\<lambda>k. if k \<in> set queryString
                then (case URL_Query r k of Some v \<Rightarrow> (if v \<noteq> [] then Some v else None) | None \<Rightarrow> None)
                else None))"
  by (auto simp: NewRequestBuilder_def Let_def query_loop_result fun_eq_iff split: prod.splits option.splits)

text \<open>
  The scenario of the tests: \<open>?b=1&c[]=x&c[]=y&d=1&d=2&a=42\<close> with the query strings
  \<open>b\<close>, \<open>c[]\<close> and \<open>d\<close>, and with \<open>*\<close>.
\<close>

theorem query_selection_witness:
  "req_Query (fst (NewRequestBuilder test_pkg (\<lambda>s. []) (\<lambda>r. Map.empty) (test_request ''GET'')
                     [''b'', ''c[]'', ''d''] [''Content-Type''] test_store))
     = [''b'' \<mapsto> [''1''], ''c[]'' \<mapsto> [''x'', ''y''], ''d'' \<mapsto> [''1'', ''2'']]
   \<and> req_Query (fst (NewRequestBuilder test_pkg (\<lambda>s. []) (\<lambda>r. Map.empty) (test_request ''GET'')
                     [''b'', ''c[]'', ''d''] [''Content-Type''] test_store)) ''a'' = None
   \<and> req_Query (fst (NewRequestBuilder test_pkg (\<lambda>s. []) (\<lambda>r. Map.empty) (test_request ''GET'')
                     [''*''] [''*''] test_store))
     = [''b'' \<mapsto> [''1''], ''c[]'' \<mapsto> [''x'', ''y''], ''d'' \<mapsto> [''1'', ''2''], ''a'' \<mapsto> [''42'']]"
  using query_selection [of test_pkg "\<lambda>s. []" "\<lambda>r. Map.empty" "test_request ''GET''"
          "[''b'', ''c[]'', ''d'']" "[''Content-Type'']" test_store]
        query_selection [of test_pkg "\<lambda>s. []" "\<lambda>r. Map.empty" "test_request ''GET''"
          "[''*'']" "[''*'']" test_store]
  by (auto simp: test_request_def test_query_def requestParamsAsterisk_def fun_eq_iff)

text \<open>
  C6 (as amended). \<open>getRender\<close> is evaluated once per configuration, when the handler
  is built: a built handler serves every request with the render resolved then,
  whatever the register holds when the request arrives. It returns the render
  registered under \<open>OutputEncoding\<close> when that is set and registered; otherwise, when
  there is exactly one backend and its \<open>Encoding\<close> is registered, the render
  registered under that; otherwise the JSON render. So an unregistered
  \<open>OutputEncoding\<close> falls back to the single backend's render before it falls back to
  JSON.
\<close>

theorem render_resolution:
  "getRender register json cfg =
     (case (if OutputEncoding cfg = [] then None else register (OutputEncoding cfg)) of
        Some r \<Rightarrow> r
      | None \<Rightarrow>
          (case (if length (Backend cfg) = 1 then register (Encoding (hd (Backend cfg))) else None) of
             Some r \<Rightarrow> r
           | None \<Rightarrow> json))
   \<and> (\<forall>register_now.
         handler_built P json_render rb errF register_built cfg prxy register_now
           = CustomEndpointHandlerWithHTTPError P (\<lambda>c. getRender register_built json_render cfg)
               rb errF cfg prxy)"
proof
  show "getRender register json cfg =
     (case (if OutputEncoding cfg = [] then None else register (OutputEncoding cfg)) of
        Some r \<Rightarrow> r
      | None \<Rightarrow>
          (case (if length (Backend cfg) = 1 then register (Encoding (hd (Backend cfg))) else None) of
             Some r \<Rightarrow> r
           | None \<Rightarrow> json))"
    by (cases "Backend cfg")
       (simp_all add: getRender_def getWithFallback_def Let_def split: option.splits)
  show "\<forall>register_now.
         handler_built P json_render rb errF register_built cfg prxy register_now
           = CustomEndpointHandlerWithHTTPError P (\<lambda>c. getRender register_built json_render cfg)
               rb errF cfg prxy"
    by (simp add: handler_built_def CustomEndpointHandlerWithHTTPError_def Let_def)
qed

text \<open>
  The register as declared: a registered output encoding wins, a single backend's
  encoding comes next, and JSON is the last resort. And a handler built for the output
  encoding \<open>string\<close> while the register is empty: it renders with the JSON render
  also after a render for \<open>string\<close> has been registered, although resolution would
  then give that one.
\<close>

theorem render_resolution_witness:
  "getRender renderRegister JsonRender
      ((test_endpoint 10)\<lparr>OutputEncoding := ''negotiate'',
          Backend := [\<lparr>URLPattern = ''/'', Encoding = ''string'', ConcurrentCalls = 1\<rparr>]\<rparr>)
     = NegotiatedRender
   \<and> getRender renderRegister JsonRender
      ((test_endpoint 10)\<lparr>Backend := [\<lparr>URLPattern = ''/'', Encoding = ''string'', ConcurrentCalls = 1\<rparr>]\<rparr>)
     = StringRender
   \<and> getRender renderRegister JsonRender
      ((test_endpoint 10)\<lparr>Backend := [\<lparr>URLPattern = ''/'', Encoding = ''string'', ConcurrentCalls = 1\<rparr>,
                                         \<lparr>URLPattern = ''/'', Encoding = ''string'', ConcurrentCalls = 1\<rparr>]\<rparr>)
     = JsonRender
   \<and> getRender renderRegister JsonRender (test_endpoint 10) = JsonRender
   \<and> getRender (RegisterRender Map.empty ''string'' (\<lambda>w resp. Inr (Write w ''text'')))
        (stub_render (test_endpoint 10)) ((test_endpoint 10)\<lparr>OutputEncoding := ''string''\<rparr>)
        NewRecorder (Some (test_response True []))
      = Inr \<lparr>w_header = Map.empty, w_status = Some 200, w_body = ''text''\<rparr>
   \<and> handler_built test_pkg (stub_render (test_endpoint 10)) (\<lambda>r qs hs. qs) DefaultToHTTPError
        Map.empty ((test_endpoint 10)\<lparr>OutputEncoding := ''string''\<rparr>)
        (\<lambda>q. (Some (test_response True []), None, False))
        (RegisterRender Map.empty ''string'' (\<lambda>w resp. Inr (Write w ''text'')))
        NewRecorder (test_request ''GET'')
      = (Inr \<lparr>w_header = [''X-Krakend'' \<mapsto> [''Version undefined''], ''X-Krakend-Completed'' \<mapsto> [''true''],
                           ''Cache-Control'' \<mapsto> [''public, max-age=21600''],
                           ''Content-Type'' \<mapsto> [''application/json'']],
              w_status = Some 200, w_body = ''{...}''\<rparr>, [[''b'', ''c[]'', ''d'']])"
proof -
  let ?b = "\<lparr>URLPattern = ''/'', Encoding = ''string'', ConcurrentCalls = 1\<rparr>"
  let ?cfg = "(test_endpoint 10)\<lparr>OutputEncoding := ''string''\<rparr>"
  let ?other = "\<lambda>(w :: response_writer) (resp :: string response option).
                  (Inr (Write w ''text'') :: panic + response_writer)"
  note r = renderRegister_def NEGOTIATE_def encoding_STRING_def encoding_JSON_def encoding_NOOP_def
    test_endpoint_def
  have 1: "getRender renderRegister JsonRender
      ((test_endpoint 10)\<lparr>OutputEncoding := ''negotiate'', Backend := [?b]\<rparr>) = NegotiatedRender"
    using render_resolution [where register = renderRegister and json = JsonRender
        and cfg = "(test_endpoint 10)\<lparr>OutputEncoding := ''negotiate'', Backend := [?b]\<rparr>", THEN conjunct1]
    by (simp add: r)
  have 2: "getRender renderRegister JsonRender ((test_endpoint 10)\<lparr>Backend := [?b]\<rparr>) = StringRender"
    using render_resolution [where register = renderRegister and json = JsonRender
        and cfg = "(test_endpoint 10)\<lparr>Backend := [?b]\<rparr>", THEN conjunct1]
    by (simp add: r)
  have 3: "getRender renderRegister JsonRender ((test_endpoint 10)\<lparr>Backend := [?b, ?b]\<rparr>) = JsonRender"
    using render_resolution [where register = renderRegister and json = JsonRender
        and cfg = "(test_endpoint 10)\<lparr>Backend := [?b, ?b]\<rparr>", THEN conjunct1]
    by (simp add: r)
  have 4: "getRender renderRegister JsonRender (test_endpoint 10) = JsonRender"
    using render_resolution [where register = renderRegister and json = JsonRender
        and cfg = "test_endpoint 10", THEN conjunct1]
    by (simp add: r)
  have 5: "getRender (RegisterRender Map.empty ''string'' ?other) (stub_render (test_endpoint 10)) ?cfg
             NewRecorder (Some (test_response True []))
           = Inr \<lparr>w_header = Map.empty, w_status = Some 200, w_body = ''text''\<rparr>"
    by (simp add: getRender_def getWithFallback_def RegisterRender_def test_endpoint_def Let_def
          Write_def NewRecorder_def StatusOK_def)
  have now: "getRender Map.empty (stub_render (test_endpoint 10)) ?cfg = stub_render (test_endpoint 10)"
    by (simp add: getRender_def getWithFallback_def test_endpoint_def Let_def)
  have 6: "handler_built test_pkg (stub_render (test_endpoint 10)) (\<lambda>r qs hs. qs) DefaultToHTTPError
        Map.empty ?cfg (\<lambda>q. (Some (test_response True []), None, False))
        (RegisterRender Map.empty ''string'' ?other) NewRecorder (test_request ''GET'')
      = (Inr \<lparr>w_header = [''X-Krakend'' \<mapsto> [''Version undefined''], ''X-Krakend-Completed'' \<mapsto> [''true''],
                           ''Cache-Control'' \<mapsto> [''public, max-age=21600''],
                           ''Content-Type'' \<mapsto> [''application/json'']],
              w_status = Some 200, w_body = ''{...}''\<rparr>, [[''b'', ''c[]'', ''d'']])"
    unfolding render_resolution [THEN conjunct2, rule_format] now
    by (simp add: CustomEndpointHandlerWithHTTPError_def fixture_defs test_response_def ToTitle_GET Let_def
        Seconds_is_zero_def Seconds_int_def fmt_d_def digits.simps add_headers_def
        w_Set_def Header_Set_def Write_def StatusOK_def
        canon_test_names canon_Cache_Control canon_Content_Type)
  show ?thesis
    using 1 2 3 4 5 6 by blast
qed

text \<open>
  C6 as stated fails: with the output encoding \<open>xml\<close>, which the register does not
  hold, and one backend of the encoding \<open>string\<close>, the render is the string render,
  not the JSON render.
\<close>

theorem render_fallback_counterexample:
  "renderRegister ''xml'' = None
   \<and> getRender renderRegister JsonRender
        ((test_endpoint 10)\<lparr>OutputEncoding := ''xml'',
            Backend := [\<lparr>URLPattern = ''/'', Encoding = ''string'', ConcurrentCalls = 1\<rparr>]\<rparr>)
      = StringRender
   \<and> StringRender \<noteq> JsonRender"
  by (simp add: getRender_def getWithFallback_def renderRegister_def NEGOTIATE_def encoding_STRING_def
        encoding_JSON_def encoding_NOOP_def test_endpoint_def Let_def)

text \<open>
  C7. The claim does not hold of the code: \<open>noopRender\<close> writes only the first value
  of each header of \<open>Metadata.Headers\<close> (two \<open>Set-Cookie\<close> values become one), and a
  header with no value at all makes it panic.
\<close>

theorem noopRender_first_value_only:
  "noopRender \<lparr>c_status = 200, c_header = Map.empty, c_body = []\<rparr>
     (Some \<lparr>Data = [] :: (string \<times> string) list, IsComplete = True,
            Metadata = \<lparr>Headers = [(''Set-Cookie'', [''a=1'', ''b=2''])], StatusCode = 201\<rparr>,
            Io = Some ''payload''\<rparr>)
   = Inr \<lparr>c_status = 201, c_header = [''Set-Cookie'' \<mapsto> [''a=1'']], c_body = ''payload''\<rparr>
   \<and> noopRender \<lparr>c_status = 200, c_header = Map.empty, c_body = []\<rparr>
     (Some \<lparr>Data = [] :: (string \<times> string) list, IsComplete = True,
            Metadata = \<lparr>Headers = [(''X-Empty'', [])], StatusCode = 201\<rparr>,
            Io = Some ''payload''\<rparr>)
   = Inl IndexOutOfRange"
  by (simp add: noopRender_def c_Status_def c_Header_def io_Copy_def Header_Set_def key_defs)

text \<open>
  C8 (as amended). For methods that are ASCII text: \<open>registerKrakendEndpoint\<close>
  upper-cases the method and registers
  the endpoint exactly when that method is one of GET, POST, PUT, PATCH and DELETE
  and it is GET or the endpoint has at most one backend; any other endpoint is logged
  as an error and \<open>Engine.Handle\<close> is not called. Every route that
  \<open>registerKrakendEndpoints\<close> adds comes from such a registrable configuration.
\<close>

theorem registration_rules:
  assumes "is_ascii verb" and "list_all (\<lambda>c. is_ascii (cfg_Method c)) cs"
  shows "(registrable verb totBackends \<longrightarrow>
      handled (registerKrakendEndpoint verb path handler totBackends s)
        = handled s @ [(path, ToTitle verb, handler)])
   \<and> (\<not> registrable verb totBackends \<longrightarrow>
      handled (registerKrakendEndpoint verb path handler totBackends s) = handled s
      \<and> (\<exists>msg. logged (registerKrakendEndpoint verb path handler totBackends s)
                  = logged s @ [LogError msg]))
   \<and> (\<exists>hs. handled (registerKrakendEndpoints ProxyFactory HandlerFactory cs s) = handled s @ hs
        \<and> (\<forall>(p, m, h) \<in> set hs. \<exists>c \<in> set cs. p = Endpoint c \<and> m = ToTitle (cfg_Method c)
               \<and> registrable (cfg_Method c) (int (length (Backend c)))))"
  using register_rejected [of verb totBackends path handler s]
    registered_endpoints [of ProxyFactory HandlerFactory cs s]
  by (simp add: register_accepted)

text \<open>
  The endpoints of the router tests: a GET with three backends and a POST with one
  are registered; \<open>GETTT\<close> with one backend and a PUT with two are not.
\<close>

theorem registration_rules_witness:
  "is_ascii ''get'' \<and> is_ascii ''POST'' \<and> is_ascii ''GETTT'' \<and> is_ascii ''PUT''
   \<and> registrable ''get'' 3
   \<and> handled (registerKrakendEndpoint ''get'' ''/get/{id}'' ''h'' 3 \<lparr>handled = [], logged = []\<rparr>)
       = [(''/get/{id}'', ''GET'', ''h'')]
   \<and> registrable ''POST'' 1
   \<and> handled (registerKrakendEndpoint ''POST'' ''/post'' ''h'' 1 \<lparr>handled = [], logged = []\<rparr>)
       = [(''/post'', ''POST'', ''h'')]
   \<and> \<not> registrable ''GETTT'' 1
   \<and> handled (registerKrakendEndpoint ''GETTT'' ''/ignored'' ''h'' 1 \<lparr>handled = [], logged = []\<rparr>) = []
   \<and> \<not> registrable ''PUT'' 2
   \<and> handled (registerKrakendEndpoint ''PUT'' ''/also-ignored'' ''h'' 2 \<lparr>handled = [], logged = []\<rparr>) = []
   \<and> logged (registerKrakendEndpoint ''PUT'' ''/also-ignored'' ''h'' 2 \<lparr>handled = [], logged = []\<rparr>)
       = [LogError [''PUT'', ''endpoints must have a single backend! Ignoring'', ''/also-ignored'']]
   \<and> list_all (\<lambda>c. is_ascii (cfg_Method c))
        [(test_endpoint 10)\<lparr>Endpoint := ''/ignored'', cfg_Method := ''GETTT''\<rparr>,
         (test_endpoint 10)\<lparr>Endpoint := ''/get'', cfg_Method := ''get''\<rparr>]
   \<and> handled (registerKrakendEndpoints (\<lambda>c. Inr ''proxy'') (\<lambda>c p. ''h'')
        [(test_endpoint 10)\<lparr>Endpoint := ''/ignored'', cfg_Method := ''GETTT''\<rparr>,
         (test_endpoint 10)\<lparr>Endpoint := ''/get'', cfg_Method := ''get''\<rparr>]
        \<lparr>handled = [], logged = []\<rparr>)
       = [(''/get'', ''GET'', ''h'')]"
proof -
  have t: "ToTitle ''get'' = ''GET''" "ToTitle ''POST'' = ''POST''" "ToTitle ''GETTT'' = ''GETTT''"
    "ToTitle ''PUT'' = ''PUT''"
    by (simp_all add: ToTitle_def to_upper_def lower_letters_def upper_letters_def)
  have r: "registrable ''get'' 3" "registrable ''POST'' 1" "\<not> registrable ''GETTT'' 1" "\<not> registrable ''PUT'' 2"
    by (simp_all add: registrable_def supported_method_def t MethodGet_def MethodPost_def MethodPut_def
          MethodPatch_def MethodDelete_def)
  let ?s = "\<lparr>handled = [] :: (string \<times> string \<times> string) list, logged = []\<rparr>"
  let ?cs = "[(test_endpoint 10)\<lparr>Endpoint := ''/ignored'', cfg_Method := ''GETTT''\<rparr>,
              (test_endpoint 10)\<lparr>Endpoint := ''/get'', cfg_Method := ''get''\<rparr>]"
  have i: "is_ascii ''get''" "is_ascii ''POST''" "is_ascii ''GETTT''" "is_ascii ''PUT''"
    "list_all (\<lambda>c. is_ascii (cfg_Method c)) ?cs"
    by (simp_all add: is_ascii_def test_endpoint_def)
  note a = registration_rules [where verb = "''get''" and totBackends = 3 and handler = "''h''"
      and path = "''/get/{id}''" and s = ?s and cs = ?cs, OF i(1) i(5), THEN conjunct1, rule_format, OF r(1)]
  note b = registration_rules [where verb = "''POST''" and totBackends = 1 and handler = "''h''"
      and path = "''/post''" and s = ?s and cs = ?cs, OF i(2) i(5), THEN conjunct1, rule_format, OF r(2)]
  note c = registration_rules [where verb = "''GETTT''" and totBackends = 1 and handler = "''h''"
      and path = "''/ignored''" and s = ?s and cs = ?cs, OF i(3) i(5), THEN conjunct2, THEN conjunct1,
      rule_format, OF r(3), THEN conjunct1]
  note d = registration_rules [where verb = "''PUT''" and totBackends = 2 and handler = "''h''"
      and path = "''/also-ignored''" and s = ?s and cs = ?cs, OF i(4) i(5), THEN conjunct2, THEN conjunct1,
      rule_format, OF r(4), THEN conjunct1]
  have l: "logged (registerKrakendEndpoint ''PUT'' ''/also-ignored'' ''h'' 2 ?s)
       = [LogError [''PUT'', ''endpoints must have a single backend! Ignoring'', ''/also-ignored'']]"
    by (simp add: registerKrakendEndpoint_def t MethodGet_def Logger_Error_def Let_def)
  have e: "handled (registerKrakendEndpoints (\<lambda>c. Inr ''proxy'') (\<lambda>c p. ''h'') ?cs ?s)
       = [(''/get'', ''GET'', ''h'')]"
    by (simp add: test_endpoint_def registerKrakendEndpoint_def t Let_def Engine_Handle_def Logger_Debug_def
          Logger_Error_def MethodGet_def MethodPost_def MethodPut_def MethodPatch_def MethodDelete_def)
  show ?thesis
    using i r a b c d l e by (simp add: t)
qed

text \<open>
  C8 as stated fails: a POST endpoint with no backend at all, which breaks the rule
  of exactly one backend, is registered (with a proxy factory that accepts it, as
  the \<open>noopProxyFactory\<close> of the tests does).
\<close>

theorem registration_no_backend_counterexample:
  "is_ascii (cfg_Method ((test_endpoint 10)\<lparr>Endpoint := ''/empty'', cfg_Method := ''POST''\<rparr>))
   \<and> int (length (Backend ((test_endpoint 10)\<lparr>Endpoint := ''/empty'', cfg_Method := ''POST''\<rparr>))) \<noteq> 1
   \<and> handled (registerKrakendEndpoints (\<lambda>c. Inr ''noop proxy'') (\<lambda>c p. ''handler'')
                [(test_endpoint 10)\<lparr>Endpoint := ''/empty'', cfg_Method := ''POST''\<rparr>]
                \<lparr>handled = [], logged = []\<rparr>)
       = [(''/empty'', ''POST'', ''handler'')]"
  by (simp add: test_endpoint_def registerKrakendEndpoint_def Let_def Engine_Handle_def Logger_Debug_def
        is_ascii_def
        MethodGet_def MethodPost_def ToTitle_def to_upper_def lower_letters_def upper_letters_def)

text \<open>
  C9. For \<open>N > 1\<close> hedged calls that all complete, \<open>k\<close> of them failing: the result is a
  success exactly when \<open>k < N\<close>, and it is then the first success in arrival order;
  when \<open>k = N\<close> the result is the error of the call that completed last.
\<close>

theorem hedging_result:
  assumes "length arrivals = N" and "1 < N" and "k = length (filter isl arrivals)"
  shows "(k < N \<longleftrightarrow> (\<exists>v. ConcurrentMiddleware arrivals = Some (Inr v)))
       \<and> (k < N \<longrightarrow> ConcurrentMiddleware arrivals = find (\<lambda>r. \<not> isl r) arrivals)
       \<and> (k = N \<longrightarrow> (\<exists>e. last arrivals = Inl e \<and> ConcurrentMiddleware arrivals = Some (Inl e)))"
proof -
  have ne: "arrivals \<noteq> []"
    using assms(1,2) by auto
  show ?thesis
  proof (cases "k < N")
    case True
    then have ex: "\<exists>r \<in> set arrivals. \<not> isl r"
      using assms(1,3) failures_lt_length [of arrivals] by simp
    then obtain r where r: "find (\<lambda>r. \<not> isl r) arrivals = Some r" "\<not> isl r"
      by (metis find_Some_iff find_None_iff option.exhaust)
    then obtain v where "r = Inr v"
      by (cases r) auto
    with r True hedged_some_success [OF ex] show ?thesis
      by simp
  next
    case False
    then have all: "\<forall>r \<in> set arrivals. isl r"
      using assms(1,3) failures_lt_length [of arrivals] by auto
    have kN: "k = N"
      using False assms(1,3) length_filter_le [of isl arrivals] by simp
    from all ne have "isl (last arrivals)"
      by simp
    then obtain e where "last arrivals = Inl e"
      by (cases "last arrivals") auto
    with hedged_all_failed [OF ne all] kN show ?thesis
      by simp
  qed
qed

text \<open>Three calls: two failures and then a success; and three failures.\<close>

theorem hedging_result_witness:
  "length [Inl (Error ''e1''), Inl (Error ''e2''), Inr (1::nat)] = 3 \<and> (1::nat) < 3
   \<and> length (filter isl [Inl (Error ''e1''), Inl (Error ''e2''), Inr (1::nat)]) < 3
   \<and> ConcurrentMiddleware [Inl (Error ''e1''), Inl (Error ''e2''), Inr (1::nat)] = Some (Inr 1)
   \<and> length (filter isl [Inl (Error ''e1''), Inl (Error ''e2''), Inl (Error ''e3'') :: go_error + nat]) = 3
   \<and> ConcurrentMiddleware [Inl (Error ''e1''), Inl (Error ''e2''), Inl (Error ''e3'') :: go_error + nat]
       = Some (Inl (Error ''e3''))"
  using hedging_result [of "[Inl (Error ''e1''), Inl (Error ''e2''), Inr (1::nat)]" 3 2]
    hedging_result [of "[Inl (Error ''e1''), Inl (Error ''e2''), Inl (Error ''e3'') :: go_error + nat]" 3 3]
  by simp

text \<open>
  C10. The builder always makes a new map. With \<open>*\<close> among the headers to pass, the
  outbound request's header map is nevertheless the inbound request's own map, and the
  entries \<open>X-Forwarded-For\<close> and \<open>User-Agent\<close> are written into it. Without \<open>*\<close> the
  outbound map is the new one, holding the listed headers that the inbound request
  has and the two entries, and no map that existed before the call is changed.
\<close>

theorem header_aliasing:
  assumes "Header r < next_addr st"
  shows "(requestParamsAsterisk \<in> set headersToSend \<longrightarrow>
           (let (q, st') = NewRequestBuilder P FindAllStringSubmatch paramExtractor r queryString headersToSend st;
                matches = FindAllStringSubmatch (RemoteAddr r)
            in req_Headers q = Header r
               \<and> next_addr st' = Suc (next_addr st)
               \<and> maps st' (Header r) =
                   (maps st (Header r))
                     (''X-Forwarded-For'' \<mapsto> (if length matches > 0 \<and> length (matches ! 0) > 1
                                               then [matches ! 0 ! 1] else [RemoteAddr r]),
                      ''User-Agent'' \<mapsto> UserAgentHeaderValue P)
               \<and> (\<forall>a. a < next_addr st \<and> a \<noteq> Header r \<longrightarrow> maps st' a = maps st a)))
       \<and> (requestParamsAsterisk \<notin> set headersToSend \<longrightarrow>
           (let (q, st') = NewRequestBuilder P FindAllStringSubmatch paramExtractor r queryString headersToSend st;
                matches = FindAllStringSubmatch (RemoteAddr r)
            in req_Headers q = next_addr st
               \<and> next_addr st' = Suc (next_addr st)
               \<and> req_Headers q \<noteq> Header r
               \<and> maps st' (req_Headers q) =
                   (\<lambda>k. if k \<in> set headersToSend
                           \<and> maps st (Header r) (CanonicalMIMEHeaderKey k) \<noteq> None
                        then maps st (Header r) (CanonicalMIMEHeaderKey k) else None)
                     (''X-Forwarded-For'' \<mapsto> (if length matches > 0 \<and> length (matches ! 0) > 1
                                               then [matches ! 0 ! 1] else [RemoteAddr r]),
                      ''User-Agent'' \<mapsto> UserAgentHeaderValue P)
               \<and> (\<forall>a. a < next_addr st \<longrightarrow> maps st' a = maps st a)))"
proof -
  define st1 where "st1 = fst (make_map st)"
  define l where "l = headers_loop st1 (next_addr st) (Header r) headersToSend"
  define xff where "xff = (if length (FindAllStringSubmatch (RemoteAddr r)) > 0
                              \<and> length (FindAllStringSubmatch (RemoteAddr r) ! 0) > 1
                           then [FindAllStringSubmatch (RemoteAddr r) ! 0 ! 1] else [RemoteAddr r])"
  define st4 where "st4 = map_assign (map_assign (fst l) (snd l) ''X-Forwarded-For'' xff) (snd l)
                            ''User-Agent'' (UserAgentHeaderValue P)"
  define q where "q = \<lparr>req_Method = Method r, req_Query = query_loop Map.empty (URL_Query r) queryString,
                        req_Body = Body r, req_Params = paramExtractor r, req_Headers = snd l\<rparr>"
  have mk: "make_map st = (st1, next_addr st)"
    by (simp add: st1_def make_map_def)
  have res: "NewRequestBuilder P FindAllStringSubmatch paramExtractor r queryString headersToSend st = (q, st4)"
    by (simp add: NewRequestBuilder_def mk l_def [symmetric] Let_def xff_def st4_def q_def
          split: prod.splits)
  have ne: "Header r \<noteq> next_addr st" "next_addr st \<noteq> Header r"
    using assms by simp_all
  have st1_old: "maps st1 a = maps st a" if "a \<noteq> next_addr st" for a
    using that by (simp add: st1_def make_map_def)
  have st1_new: "maps st1 (next_addr st) = Map.empty" "next_addr st1 = Suc (next_addr st)"
    by (simp_all add: st1_def make_map_def)
  have loop: "snd l = (if requestParamsAsterisk \<in> set headersToSend then Header r else next_addr st)"
    "next_addr (fst l) = Suc (next_addr st)"
    using headers_loop_result [of st1 "next_addr st" "Header r" headersToSend] st1_new(2)
    by (simp_all add: l_def)
  have loop_old: "maps (fst l) a = maps st a" if "a \<noteq> next_addr st" for a
    using headers_loop_result [of st1 "next_addr st" "Header r" headersToSend] that st1_old [OF that]
    by (simp add: l_def)
  have next4: "next_addr st4 = Suc (next_addr st)"
    by (simp add: st4_def map_assign_simps loop(2))
  have at: "maps st4 (snd l) = (maps (fst l) (snd l))(''X-Forwarded-For'' \<mapsto> xff,
                                                      ''User-Agent'' \<mapsto> UserAgentHeaderValue P)"
    by (simp add: st4_def map_assign_simps)
  have off: "maps st4 a = maps (fst l) a" if "a \<noteq> snd l" for a
    using that by (simp add: st4_def map_assign_simps)
  show ?thesis
  proof (intro conjI impI)
    assume star: "requestParamsAsterisk \<in> set headersToSend"
    then have h: "snd l = Header r"
      by (simp add: loop(1))
    have 1: "req_Headers q = Header r"
      by (simp add: q_def h)
    have 2: "maps st4 (Header r) = (maps st (Header r))(''X-Forwarded-For'' \<mapsto> xff,
                                                        ''User-Agent'' \<mapsto> UserAgentHeaderValue P)"
      using at loop_old [OF ne(1)] by (simp add: h)
    have 3: "\<forall>a. a < next_addr st \<and> a \<noteq> Header r \<longrightarrow> maps st4 a = maps st a"
      using off loop_old by (simp add: h)
    from 1 2 3 next4
    show "let (q, st') = NewRequestBuilder P FindAllStringSubmatch paramExtractor r queryString headersToSend st;
                matches = FindAllStringSubmatch (RemoteAddr r)
            in req_Headers q = Header r
               \<and> next_addr st' = Suc (next_addr st)
               \<and> maps st' (Header r) =
                   (maps st (Header r))
                     (''X-Forwarded-For'' \<mapsto> (if length matches > 0 \<and> length (matches ! 0) > 1
                                               then [matches ! 0 ! 1] else [RemoteAddr r]),
                      ''User-Agent'' \<mapsto> UserAgentHeaderValue P)
               \<and> (\<forall>a. a < next_addr st \<and> a \<noteq> Header r \<longrightarrow> maps st' a = maps st a)"
      by (simp add: res Let_def xff_def)
  next
    assume n: "requestParamsAsterisk \<notin> set headersToSend"
    then have h: "snd l = next_addr st"
      by (simp add: loop(1))
    have 1: "req_Headers q = next_addr st"
      by (simp add: q_def h)
    have c: "maps (fst l) (next_addr st) =
           (\<lambda>k. if k \<in> set headersToSend \<and> maps st (Header r) (CanonicalMIMEHeaderKey k) \<noteq> None
                then maps st (Header r) (CanonicalMIMEHeaderKey k) else None)"
      using headers_loop_content [OF n ne(2), of st1] st1_old [OF ne(1)] st1_new(1)
      by (auto simp: l_def fun_eq_iff)
    have 2: "maps st4 (next_addr st) =
           (\<lambda>k. if k \<in> set headersToSend \<and> maps st (Header r) (CanonicalMIMEHeaderKey k) \<noteq> None
                then maps st (Header r) (CanonicalMIMEHeaderKey k) else None)
             (''X-Forwarded-For'' \<mapsto> xff, ''User-Agent'' \<mapsto> UserAgentHeaderValue P)"
      using at c by (simp add: h)
    have 3: "\<forall>a. a < next_addr st \<longrightarrow> maps st4 a = maps st a"
      using off loop_old by (simp add: h)
    from 1 2 3 next4 ne
    show "let (q, st') = NewRequestBuilder P FindAllStringSubmatch paramExtractor r queryString headersToSend st;
                matches = FindAllStringSubmatch (RemoteAddr r)
            in req_Headers q = next_addr st
               \<and> next_addr st' = Suc (next_addr st)
               \<and> req_Headers q \<noteq> Header r
               \<and> maps st' (req_Headers q) =
                   (\<lambda>k. if k \<in> set headersToSend
                           \<and> maps st (Header r) (CanonicalMIMEHeaderKey k) \<noteq> None
                        then maps st (Header r) (CanonicalMIMEHeaderKey k) else None)
                     (''X-Forwarded-For'' \<mapsto> (if length matches > 0 \<and> length (matches ! 0) > 1
                                               then [matches ! 0 ! 1] else [RemoteAddr r]),
                      ''User-Agent'' \<mapsto> UserAgentHeaderValue P)
               \<and> (\<forall>a. a < next_addr st \<longrightarrow> maps st' a = maps st a)"
      by (simp add: res Let_def xff_def)
  qed
qed

text \<open>
  The request of the tests, whose header map holds \<open>Content-Type\<close> only, with \<open>*\<close>
  (as in \<open>TestEndpointHandler_okAllParams\<close>) and with the default \<open>Content-Type\<close>.
\<close>

theorem header_aliasing_witness:
  "Header (test_request ''GET'') < next_addr test_store
   \<and> requestParamsAsterisk \<in> set [''*'']
   \<and> (let (q, st') = NewRequestBuilder test_pkg (\<lambda>s. []) (\<lambda>r. Map.empty) (test_request ''GET'')
                        [''*''] [''*''] test_store
       in req_Headers q = Header (test_request ''GET'')
          \<and> next_addr st' = 2
          \<and> maps st' (Header (test_request ''GET'')) =
               [''Content-Type'' \<mapsto> [''application/json''], ''X-Forwarded-For'' \<mapsto> [[]],
                ''User-Agent'' \<mapsto> [''KrakenD Version undefined'']])
   \<and> requestParamsAsterisk \<notin> set [''Content-Type'', ''Accept'']
   \<and> (let (q, st') = NewRequestBuilder test_pkg (\<lambda>s. []) (\<lambda>r. Map.empty) (test_request ''GET'')
                        [''b''] [''Content-Type'', ''Accept''] test_store
       in req_Headers q = 1
          \<and> next_addr st' = 2
          \<and> maps st' 1 =
               [''Content-Type'' \<mapsto> [''application/json''], ''X-Forwarded-For'' \<mapsto> [[]],
                ''User-Agent'' \<mapsto> [''KrakenD Version undefined'']]
          \<and> maps st' (Header (test_request ''GET'')) = [''Content-Type'' \<mapsto> [''application/json'']])"
proof -
  have a: "Header (test_request ''GET'') < next_addr test_store"
    by (simp add: test_request_def test_store_def)
  have s: "requestParamsAsterisk \<in> set [''*'']" "requestParamsAsterisk \<notin> set [''Content-Type'', ''Accept'']"
    by (simp_all add: requestParamsAsterisk_def)
  have v: "Header (test_request ''GET'') = 0" "next_addr test_store = 1"
    "maps test_store 0 = [''Content-Type'' \<mapsto> [''application/json'']]"
    "RemoteAddr (test_request ''GET'') = []"
    "UserAgentHeaderValue test_pkg = [''KrakenD Version undefined'']"
    by (simp_all add: test_request_def test_store_def test_pkg_def)
  have k: "CanonicalMIMEHeaderKey ''Accept'' = ''Accept''"
    by (simp add: key_defs)
  note t1 = header_aliasing [OF a, where headersToSend = "[''*'']" and P = test_pkg
      and FindAllStringSubmatch = "\<lambda>s. []" and paramExtractor = "\<lambda>r. Map.empty" and queryString = "[''*'']",
      THEN conjunct1, rule_format, OF s(1)]
  note t2 = header_aliasing [OF a, where headersToSend = "[''Content-Type'', ''Accept'']" and P = test_pkg
      and FindAllStringSubmatch = "\<lambda>s. []" and paramExtractor = "\<lambda>r. Map.empty" and queryString = "[''b'']",
      THEN conjunct2, rule_format, OF s(2)]
  from t1 have g1: "(let (q, st') = NewRequestBuilder test_pkg (\<lambda>s. []) (\<lambda>r. Map.empty) (test_request ''GET'')
                        [''*''] [''*''] test_store
       in req_Headers q = Header (test_request ''GET'')
          \<and> next_addr st' = 2
          \<and> maps st' (Header (test_request ''GET'')) =
               [''Content-Type'' \<mapsto> [''application/json''], ''X-Forwarded-For'' \<mapsto> [[]],
                ''User-Agent'' \<mapsto> [''KrakenD Version undefined'']])"
    by (simp add: v split: prod.splits)
  have meq: "(\<lambda>k. if k \<in> set [''Content-Type'', ''Accept'']
                     \<and> maps test_store (Header (test_request ''GET'')) (CanonicalMIMEHeaderKey k) \<noteq> None
                  then maps test_store (Header (test_request ''GET'')) (CanonicalMIMEHeaderKey k) else None)
             = [''Content-Type'' \<mapsto> [''application/json'']]"
    by (auto simp: fun_eq_iff v k canon_Content_Type)
  have g2: "(let (q, st') = NewRequestBuilder test_pkg (\<lambda>s. []) (\<lambda>r. Map.empty) (test_request ''GET'')
                        [''b''] [''Content-Type'', ''Accept''] test_store
       in req_Headers q = 1
          \<and> next_addr st' = 2
          \<and> maps st' 1 =
               [''Content-Type'' \<mapsto> [''application/json''], ''X-Forwarded-For'' \<mapsto> [[]],
                ''User-Agent'' \<mapsto> [''KrakenD Version undefined'']]
          \<and> maps st' (Header (test_request ''GET'')) = [''Content-Type'' \<mapsto> [''application/json'']])"
    using t2 [unfolded meq] by (clarsimp simp add: v split: prod.splits)
  show ?thesis
    using a s g1 g2 by blast
qed

end
